theory Spec2Isabelle
  imports Main "HOL-Library.Char_ord" "HOL-Library.List_Lexorder"
begin

datatype cell = IntV int | FloatV int | StrV string | NaN

type_synonym series = "cell list"

record frame =
  columns :: "string list"
  index :: "int list"
  rows :: "cell list list"

definition digit_char :: "nat \<Rightarrow> char" where
  "digit_char d = ''0123456789'' ! d"

fun str_nat :: "nat \<Rightarrow> string" where
  "str_nat n = (if n < 10 then [digit_char n] else str_nat (n div 10) @ [digit_char (n mod 10)])"

declare str_nat.simps [simp del]

definition str_int :: "int \<Rightarrow> string" where
  "str_int i = (if i < 0 then CHR ''-'' # str_nat (nat (- i)) else str_nat (nat i))"

fun cell_str :: "cell \<Rightarrow> string" where
  "cell_str (IntV i) = str_int i"
| "cell_str (FloatV i) = str_int i @ ''.0''"
| "cell_str (StrV s) = s"
| "cell_str NaN = ''nan''"

fun cell_eq_int :: "cell \<Rightarrow> int \<Rightarrow> bool" where
  "cell_eq_int (IntV i) k = (i = k)"
| "cell_eq_int (FloatV i) k = (i = k)"
| "cell_eq_int (StrV s) k = False"
| "cell_eq_int NaN k = False"

fun split_py :: "char \<Rightarrow> string \<Rightarrow> string list" where
  "split_py sep [] = [[]]"
| "split_py sep (c # cs) =
     (if c = sep then [] # split_py sep cs
      else (case split_py sep cs of w # ws \<Rightarrow> (c # w) # ws | [] \<Rightarrow> [[c]]))"

fun join_py :: "string \<Rightarrow> string list \<Rightarrow> string" where
  "join_py sep [] = []"
| "join_py sep [x] = x"
| "join_py sep (x # y # ys) = x @ sep @ join_py sep (y # ys)"

definition column_values :: "bool \<Rightarrow> string list \<Rightarrow> string list" where
  "column_values values_from_labels cols =
     (if values_from_labels then map (\<lambda>col. last (split_py CHR ''_'' col)) cols
      else map str_nat [1 ..< Suc (length cols)])"

definition replace_no :: "int \<Rightarrow> string \<Rightarrow> string" where
  "replace_no no s =
     (if s = ''nan'' then ''nan''
      else if s = str_int no @ ''.0'' then ''nan''
      else if s = str_int no then ''nan''
      else s)"

definition replace_yes :: "int \<Rightarrow> string \<Rightarrow> string \<Rightarrow> string" where
  "replace_yes yes v s =
     (if s = str_int yes then v
      else if s = str_int yes @ ''.0'' then v
      else s)"

definition condense_dichotomous_set :: "frame \<Rightarrow> bool \<Rightarrow> int \<Rightarrow> int \<Rightarrow> series" where
  "condense_dichotomous_set df values_from_labels yes no =
     (let df1 = map (map (\<lambda>x. if cell_eq_int x yes \<or> cell_eq_int x no then x else IntV no)) (rows df);
          df_str = map (map cell_str) df1;
          vs = column_values values_from_labels (columns df);
          df_str2 = map (\<lambda>r. map (\<lambda>(v, s). replace_yes yes v (replace_no no s)) (zip vs r)) df_str;
          series1 = map (\<lambda>x. join_py '';'' (filter (\<lambda>v. v \<noteq> ''nan'') x)) df_str2;
          series2 = map (\<lambda>s. s @ '';'') series1
      in map (\<lambda>s. if s = '';'' then NaN else StrV s) series2)"


definition digit_val :: "char \<Rightarrow> nat" where
  "digit_val c = of_char c - 48"

definition val_digits :: "string \<Rightarrow> nat" where
  "val_digits s = foldl (\<lambda>a c. 10 * a + digit_val c) 0 s"

definition is_digit :: "char \<Rightarrow> bool" where
  "is_digit c = (c \<in> set ''0123456789'')"

datatype error = TypeError string | ValueError string | KeyError string | AttributeError string
  | NotModelled string

fun bind_err :: "error + 'a \<Rightarrow> ('a \<Rightarrow> error + 'b) \<Rightarrow> error + 'b" where
  "bind_err (Inl e) f = Inl e"
| "bind_err (Inr v) f = f v"

definition quote :: "string \<Rightarrow> string" where
  "quote s = [CHR 0x27] @ s @ [CHR 0x27]"

fun replace_nan :: "string \<Rightarrow> string" where
  "replace_nan (a # b # c # cs) =
     (if [a, b, c] = ''nan'' then replace_nan cs else a # replace_nan (b # c # cs))"
| "replace_nan cs = cs"

fun collect_codes :: "string list \<Rightarrow> string list \<Rightarrow> string list" where
  "collect_codes codes [] = codes"
| "collect_codes codes (c # cs) =
     (if c = [] then collect_codes codes cs
      else if c \<notin> set codes then collect_codes (codes @ [c]) cs
      else collect_codes codes cs)"

definition merge_delimited_sets :: "string \<Rightarrow> cell" where
  "merge_delimited_sets x =
     (let codes = collect_codes [] (split_py CHR '';'' (replace_nan x))
      in if codes = [] then NaN else StrV (join_py '';'' (sort codes) @ '';''))"

definition merge_set_cells :: "cell \<Rightarrow> cell \<Rightarrow> cell" where
  "merge_set_cells x y = merge_delimited_sets (cell_str x @ cell_str y)"

fun add_cells :: "cell \<Rightarrow> cell \<Rightarrow> error + cell" where
  "add_cells NaN y = Inr NaN"
| "add_cells x NaN = Inr NaN"
| "add_cells (StrV a) (StrV b) = Inr (StrV (a @ b))"
| "add_cells (IntV a) (IntV b) = Inr (IntV (a + b))"
| "add_cells (IntV a) (FloatV b) = Inr (FloatV (a + b))"
| "add_cells (FloatV a) (IntV b) = Inr (FloatV (a + b))"
| "add_cells (FloatV a) (FloatV b) = Inr (FloatV (a + b))"
| "add_cells x y = Inl (TypeError ''unsupported operand type(s) for +'')"

fun add_series :: "series \<Rightarrow> series \<Rightarrow> error + series" where
  "add_series (x # xs) (y # ys) =
     (case add_cells x y of Inl e \<Rightarrow> Inl e
      | Inr z \<Rightarrow> (case add_series xs ys of Inl e \<Rightarrow> Inl e | Inr zs \<Rightarrow> Inr (z # zs)))"
| "add_series xs ys = Inr []"

definition blank_to_nan :: "cell \<Rightarrow> cell" where
  "blank_to_nan x = (if x = StrV [] then NaN else x)"

definition join_delimited_set_series :: "series \<Rightarrow> series \<Rightarrow> bool \<Rightarrow> error + series" where
  "join_delimited_set_series ds1 ds2 do_append =
     (if do_append then
        (case add_series ds1 ds2 of Inl e \<Rightarrow> Inl e
         | Inr joined \<Rightarrow> Inr (map blank_to_nan joined))
      else
        Inr (map blank_to_nan (map (\<lambda>(x, y). if y \<noteq> NaN then y else x) (zip ds1 ds2))))"

datatype value_entry = ValueDict int "(string \<times> string) list" | ValueStr string

datatype values_meta = ValueList "value_entry list" | ValueRef string

fun value_entries :: "values_meta \<Rightarrow> value_entry list" where
  "value_entries (ValueList vs) = vs"
| "value_entries (ValueRef s) = map (\<lambda>c. ValueStr [c]) s"

fun value_codes :: "value_entry list \<Rightarrow> error + int list" where
  "value_codes [] = Inr []"
| "value_codes (ValueStr s # rest) = Inl (TypeError ''string indices must be integers'')"
| "value_codes (ValueDict v t # rest) =
     (case value_codes rest of Inl e \<Rightarrow> Inl e | Inr cs \<Rightarrow> Inr (v # cs))"

record column =
  col_name :: string
  col_type :: string
  col_text :: "(string \<times> string) list"
  col_values :: "values_meta option"
  col_properties :: "(string \<times> string) list option"

record mask_item =
  item_source :: string
  item_text :: "(string \<times> string) list"

record mask =
  mask_text :: "(string \<times> string) list"
  mask_entries :: "mask_item list"
  mask_values :: "values_meta option"

record meta =
  m_columns :: "(string \<times> column) list"
  m_masks :: "(string \<times> mask) list"
  m_sets :: "(string \<times> string list) list"
  m_lib_values :: "(string \<times> (int \<times> (string \<times> string) list) list) list"

fun is_int_cell :: "cell \<Rightarrow> bool" where
  "is_int_cell (IntV i) = True"
| "is_int_cell x = False"

fun is_float_cell :: "cell \<Rightarrow> bool" where
  "is_float_cell (FloatV i) = True"
| "is_float_cell NaN = True"
| "is_float_cell x = False"

definition numeric_dtype :: "series \<Rightarrow> bool" where
  "numeric_dtype s = ((s \<noteq> [] \<and> list_all is_int_cell s) \<or> list_all is_float_cell s)"

definition frame_set :: "frame \<Rightarrow> string \<Rightarrow> nat list \<Rightarrow> cell \<Rightarrow> frame" where
  "frame_set df col idx v =
     df\<lparr>rows := map (\<lambda>(i, r). if i \<in> set idx
                              then map (\<lambda>(c, x). if c = col then v else x) (zip (columns df) r)
                              else r)
                    (zip [0 ..< length (rows df)] (rows df))\<rparr>"

fun cell_tokens :: "cell \<Rightarrow> string list" where
  "cell_tokens (StrV s) = filter (\<lambda>t. t \<noteq> []) (split_py CHR '';'' s)"
| "cell_tokens x = []"

definition get_dummies :: "int list \<Rightarrow> series \<Rightarrow> frame" where
  "get_dummies idx s =
     (let tags = sort (remdups (concat (map cell_tokens s)))
      in \<lparr>columns = tags, index = idx,
          rows = map (\<lambda>x. map (\<lambda>t. if t \<in> set (cell_tokens x) then IntV 1 else IntV 0) tags) s\<rparr>)"

definition parse_int_float :: "string \<Rightarrow> int option" where
  "parse_int_float s =
     (let neg = (s \<noteq> [] \<and> hd s = CHR ''-'');
          t = (if s \<noteq> [] \<and> (hd s = CHR ''-'' \<or> hd s = CHR ''+'') then tl s else s);
          ip = takeWhile is_digit t;
          rest = dropWhile is_digit t;
          fp = (if rest \<noteq> [] \<and> hd rest = CHR ''.'' then tl rest else rest)
      in if (rest = [] \<or> hd rest = CHR ''.'') \<and> list_all is_digit fp \<and> (ip \<noteq> [] \<or> fp \<noteq> [])
         then Some (if neg then - int (val_digits ip) else int (val_digits ip))
         else None)"

fun parse_columns :: "string list \<Rightarrow> error + int list" where
  "parse_columns [] = Inr []"
| "parse_columns (c # cs) =
     (case parse_int_float c of
        None \<Rightarrow> Inl (ValueError (''could not convert string to float: '' @ quote c))
      | Some i \<Rightarrow> (case parse_columns cs of Inl e \<Rightarrow> Inl e | Inr is \<Rightarrow> Inr (i # is)))"

definition select_labels :: "'a list \<Rightarrow> 'a list \<Rightarrow> 'b list \<Rightarrow> 'b list" where
  "select_labels labels wanted r =
     concat (map (\<lambda>w. map snd (filter (\<lambda>(l, x). l = w) (zip labels r))) wanted)"

definition lookup :: "('k \<times> 'v) list \<Rightarrow> 'k \<Rightarrow> error + 'v" where
  "lookup d k = (case map_of d k of None \<Rightarrow> Inl (KeyError []) | Some v \<Rightarrow> Inr v)"

definition recode_from_index_mapper ::
    "meta \<Rightarrow> string \<Rightarrow> int list \<Rightarrow> series \<Rightarrow> (int \<times> nat list) list \<Rightarrow> bool
       \<Rightarrow> error + (series \<times> string list)" where
  "recode_from_index_mapper meta name idx series0 index_mapper do_append =
     (case map_of (m_columns meta) name of
        None \<Rightarrow> Inl (KeyError name)
      | Some col \<Rightarrow>
          let qtype = col_type col in
          if qtype = ''delimited set'' then
            (let series1 = (if numeric_dtype series0
                            then map (\<lambda>x. if x \<noteq> NaN then StrV (cell_str x @ '';'') else x) series0
                            else series0)
             in case (if index_mapper \<noteq> []
                      then Inr (map str_int (sort (map fst index_mapper)))
                      else (case col_values col of
                              None \<Rightarrow> Inl (KeyError ''values'')
                            | Some vals \<Rightarrow>
                                (case value_codes (value_entries vals) of
                                   Inl e \<Rightarrow> Inl e
                                 | Inr codes \<Rightarrow> Inr (map str_int codes)))) of
                  Inl e \<Rightarrow> Inl e
                | Inr cols \<Rightarrow>
                    let ds0 = \<lparr>columns = cols, index = idx,
                               rows = map (\<lambda>x. map (\<lambda>c. IntV 0) cols) series1\<rparr>;
                        ds = fold (\<lambda>(key, ix) d. frame_set d (str_int key) ix (IntV 1)) index_mapper ds0;
                        ds2 = condense_dichotomous_set ds True 1 0
                    in case join_delimited_set_series series1 ds2 do_append of
                         Inl e \<Rightarrow> Inl e
                       | Inr series2 \<Rightarrow>
                           if list_all (\<lambda>x. x = NaN) series2 then
                             Inr (series2,
                                  [''Could not recode '' @ name @ '', found empty data column dependency!''])
                           else
                             (let dm = get_dummies idx series2 in
                              case parse_columns (columns dm) of
                                Inl e \<Rightarrow> Inl e
                              | Inr labels \<Rightarrow>
                                  let cols2 = sort labels;
                                      dm2 = \<lparr>columns = map str_int (select_labels labels cols2 labels),
                                             index = idx,
                                             rows = map (select_labels labels cols2) (rows dm)\<rparr>
                                  in Inr (condense_dichotomous_set dm2 True 1 0, [])))
          else if qtype \<in> set [''single'', ''int'', ''float''] then
            Inr (fold (\<lambda>(key, ix) s. map (\<lambda>(i, x). if i \<in> set ix then IntV key else x)
                                          (zip [0 ..< length s] s)) index_mapper series0, [])
          else
            Inl (TypeError (''Can't recode '' @ quote name @ ''. Recoding for '' @ quote qtype @
                            '' columns is not yet supported.'')))"

datatype logic =
    Codes "int list"
  | Dict "(string option \<times> logic) list"
  | HasAny "int list"
  | Intersection "logic list"
  | Tuple string
  | Other string

definition has_any :: "int list \<Rightarrow> logic" where
  "has_any codes = HasAny codes"

definition intersection :: "logic list \<Rightarrow> logic" where
  "intersection ls = Intersection ls"

fun is_dict :: "logic \<Rightarrow> bool" where
  "is_dict (Dict d) = True"
| "is_dict l = False"

fun is_tuple :: "logic \<Rightarrow> bool" where
  "is_tuple (HasAny c) = True"
| "is_tuple (Intersection ls) = True"
| "is_tuple (Tuple t) = True"
| "is_tuple l = False"

definition default_missing_message :: "int \<Rightarrow> string" where
  "default_missing_message key =
     quote (str_int key) @ '' recode definition appears to be using '' @
     ''default-shorthand but no value for '' @ quote ''default'' @ ''was given.''"

fun check_mapper :: "(int \<times> logic) list \<Rightarrow> error + unit" where
  "check_mapper [] = Inr ()"
| "check_mapper ((key, val) # rest) =
     (if \<not> (is_dict val \<or> is_tuple val)
      then Inl (TypeError (default_missing_message key))
      else check_mapper rest)"

fun key_by_default :: "string \<Rightarrow> logic \<Rightarrow> logic" where
  "key_by_default d (Codes val) = Dict [(Some d, has_any val)]"
| "key_by_default d val = Dict [(Some d, val)]"

fun resolve_all :: "(logic \<Rightarrow> error + nat list) \<Rightarrow> (int \<times> logic) list
                      \<Rightarrow> error + (int \<times> nat list) list" where
  "resolve_all get_logic_index [] = Inr []"
| "resolve_all get_logic_index ((key, l) # rest) =
     (case get_logic_index l of
        Inl e \<Rightarrow> Inl e
      | Inr ix \<Rightarrow> (case resolve_all get_logic_index rest of
                     Inl e \<Rightarrow> Inl e
                   | Inr r \<Rightarrow> Inr ((key, ix) # r)))"

definition index_mapper ::
    "(logic \<Rightarrow> error + nat list) \<Rightarrow> (int \<times> logic) list \<Rightarrow> string option \<Rightarrow> logic option
       \<Rightarrow> error + (int \<times> nat list) list" where
  "index_mapper get_logic_index mapper dflt intersect =
     (case (case dflt of
              None \<Rightarrow> (case check_mapper mapper of Inl e \<Rightarrow> Inl e | Inr u \<Rightarrow> Inr mapper)
            | Some d \<Rightarrow> Inr (map (\<lambda>(key, val). (key, key_by_default d val)) mapper)) of
        Inl e \<Rightarrow> Inl e
      | Inr keyed_mapper \<Rightarrow>
          let keyed_mapper2 =
                (case intersect of
                   None \<Rightarrow> keyed_mapper
                 | Some isect \<Rightarrow>
                     map (\<lambda>(key, v). (key, intersection
                            [isect, if is_dict v then v else Dict [(dflt, v)]])) keyed_mapper)
          in resolve_all get_logic_index keyed_mapper2)"

definition all_types :: "string list" where
  "all_types = [''array'', ''int'', ''float'', ''single'', ''delimited set'', ''string'',
                ''date'', ''time'', ''boolean'']"

definition err_table :: "(string \<times> string list) list" where
  "err_table =
     [(''array'', all_types),
      (''int'', [''float'', ''delimited set'', ''string'', ''date'', ''time'', ''array'']),
      (''float'', [''delimited set'', ''string'', ''date'', ''time'', ''array'']),
      (''single'', all_types),
      (''delimited set'', [''string'', ''date'', ''time'', ''array'', ''int'', ''float'']),
      (''string'', [''int'', ''float'', ''single'', ''delimited set'', ''date'', ''time'', ''array'']),
      (''date'', [''int'', ''float'', ''single'', ''delimited set'', ''string'', ''time'', ''array'']),
      (''time'', [''int'', ''float'', ''single'', ''delimited set'', ''string'', ''time'', ''array''])]"

definition warn_table :: "(string \<times> string list) list" where
  "warn_table =
     [(''int'', [''single'']),
      (''float'', [''int'', ''single'']),
      (''delimited set'', [''single'']),
      (''string'', [''boolean''])]"

definition dict_get :: "('k \<times> 'v) list \<Rightarrow> 'k \<Rightarrow> 'v \<Rightarrow> 'v" where
  "dict_get d k dflt = (case map_of d k of None \<Rightarrow> dflt | Some v \<Rightarrow> v)"

definition types_message :: "string \<Rightarrow> string \<Rightarrow> string \<Rightarrow> string \<Rightarrow> string" where
  "types_message what nm l_type r_type =
     ''\<newline>'' @ quote nm @ '': '' @ what @ ''Found '' @ quote l_type @ '' in left '' @
     ''and '' @ quote r_type @ '' in right dataset.''"

definition compatible_types :: "column \<Rightarrow> column \<Rightarrow> error + string list" where
  "compatible_types left_column right_column =
     (let l_type = col_type left_column; r_type = col_type right_column in
      if l_type = r_type then Inr []
      else if r_type \<in> set (dict_get err_table l_type all_types) then
        Inl (TypeError (types_message ''Trying to merge incompatibe types: ''
                          (col_name left_column) l_type r_type))
      else if r_type \<in> set (dict_get warn_table l_type all_types) then
        Inr [types_message ''Merge inconsistent types: '' (col_name left_column) l_type r_type]
      else
        Inl (TypeError (''\<newline>'' @ quote (col_name left_column) @ '': Found '' @ quote l_type @
                        '' in left and '' @ quote r_type @ '' in right dataset.'')))"

definition dict_set :: "('k \<times> 'v) list \<Rightarrow> 'k \<Rightarrow> 'v \<Rightarrow> ('k \<times> 'v) list" where
  "dict_set d k v =
     (if k \<in> fst ` set d then map (\<lambda>(k', v'). if k' = k then (k', v) else (k', v')) d
      else d @ [(k, v)])"

definition merge_text_meta ::
    "(string \<times> string) list \<Rightarrow> (string \<times> string) list \<Rightarrow> bool \<Rightarrow> (string \<times> string) list" where
  "merge_text_meta left_text right_text overwrite =
     (if overwrite then fold (\<lambda>(k, v) d. dict_set d k v) right_text left_text
      else fold (\<lambda>(k, v) d. if k \<notin> fst ` set d then dict_set d k v else d) right_text left_text)"

fun merge_value_into ::
    "value_entry \<Rightarrow> bool \<Rightarrow> value_entry list \<Rightarrow> error + (value_entry list \<times> bool)" where
  "merge_value_into val_right overwrite [] = Inr ([], False)"
| "merge_value_into val_right overwrite (ValueStr s # rest) =
     Inl (TypeError ''string indices must be integers'')"
| "merge_value_into (ValueStr s) overwrite (ValueDict lv lt # rest) =
     Inl (TypeError ''string indices must be integers'')"
| "merge_value_into (ValueDict rv rt) overwrite (ValueDict lv lt # rest) =
     bind_err (merge_value_into (ValueDict rv rt) overwrite rest) (\<lambda>(rest2, found).
       if lv = rv then Inr (ValueDict lv (merge_text_meta lt rt overwrite) # rest2, True)
       else Inr (ValueDict lv lt # rest2, found))"

fun merge_values_loop :: "values_meta \<Rightarrow> value_entry list \<Rightarrow> bool \<Rightarrow> error + values_meta" where
  "merge_values_loop left_values [] overwrite = Inr left_values"
| "merge_values_loop left_values (val_right # rest) overwrite =
     bind_err (merge_value_into val_right overwrite (value_entries left_values)) (\<lambda>(entries, found).
       if found then merge_values_loop (ValueList entries) rest overwrite
       else (case left_values of
               ValueList vs \<Rightarrow> merge_values_loop (ValueList (vs @ [val_right])) rest overwrite
             | ValueRef s \<Rightarrow>
                 Inl (AttributeError (quote ''str'' @ '' object has no attribute '' @ quote ''append''))))"

definition merge_values_meta :: "values_meta \<Rightarrow> values_meta \<Rightarrow> bool \<Rightarrow> error + values_meta" where
  "merge_values_meta left_values right_values overwrite =
     merge_values_loop left_values (value_entries right_values) overwrite"

definition merge_column_metadata :: "column \<Rightarrow> column \<Rightarrow> bool \<Rightarrow> error + (column \<times> string list)" where
  "merge_column_metadata left_column right_column overwrite =
     (case compatible_types left_column right_column of
        Inl e \<Rightarrow> Inl e
      | Inr warnings \<Rightarrow>
          let left1 = left_column\<lparr>col_text :=
                        merge_text_meta (col_text left_column) (col_text right_column) overwrite\<rparr>
          in case (col_values left1, col_values right_column) of
               (Some lv, Some rv) \<Rightarrow>
                 bind_err (merge_values_meta lv rv overwrite)
                   (\<lambda>vs. Inr (left1\<lparr>col_values := Some vs\<rparr>, warnings))
             | _ \<Rightarrow> Inr (left1, warnings))"

definition split_at :: "string \<Rightarrow> error + (string \<times> string)" where
  "split_at item =
     (case split_py CHR ''@'' item of
        [source, nm] \<Rightarrow> Inr (source, nm)
      | [x] \<Rightarrow> Inl (ValueError ''not enough values to unpack (expected 2, got 1)'')
      | _ \<Rightarrow> Inl (ValueError ''too many values to unpack (expected 2)''))"

definition uniquify_list :: "'a list \<Rightarrow> 'a list" where
  "uniquify_list xs = rev (remdups (rev xs))"

definition truthy_values :: "values_meta option \<Rightarrow> bool" where
  "truthy_values v =
     (case v of None \<Rightarrow> False | Some (ValueList vs) \<Rightarrow> vs \<noteq> [] | Some (ValueRef r) \<Rightarrow> r \<noteq> [])"

fun mask_columns ::
    "string \<Rightarrow> mask \<Rightarrow> mask_item list \<Rightarrow> string list \<times> (string \<times> string) list
       \<Rightarrow> error + (string list \<times> (string \<times> string) list)" where
  "mask_columns nm m [] acc = Inr acc"
| "mask_columns nm m (item # items) (cols, mask_items) =
     bind_err (split_at (item_source item)) (\<lambda>(s, n).
       if s = ''columns'' then
         mask_columns nm m items
           (cols @ [n],
            if truthy_values (mask_values m) then dict_set mask_items n (''lib@values@'' @ nm)
            else mask_items)
       else mask_columns nm m items (cols, mask_items))"

fun set_columns ::
    "meta \<Rightarrow> string list \<Rightarrow> string list \<times> string list \<times> (string \<times> string) list
       \<Rightarrow> error + (string list \<times> string list \<times> (string \<times> string) list)" where
  "set_columns meta_right [] acc = Inr acc"
| "set_columns meta_right (item # items) (cols, masks, mask_items) =
     bind_err (split_at item) (\<lambda>(source, nm).
       if source = ''columns'' then set_columns meta_right items (cols @ [nm], masks, mask_items)
       else if source = ''masks'' then
         (case map_of (m_masks meta_right) nm of
            None \<Rightarrow> Inl (KeyError nm)
          | Some m \<Rightarrow>
              bind_err (mask_columns nm m (mask_entries m) (cols, mask_items)) (\<lambda>(cols2, mask_items2).
                set_columns meta_right items (cols2, masks @ [nm], mask_items2)))
       else set_columns meta_right items (cols, masks, mask_items))"

definition update_text ::
    "(string \<times> string) list \<Rightarrow> (string \<times> string) list \<Rightarrow> bool \<Rightarrow> (string \<times> string) list" where
  "update_text old_text new_text overwrite =
     fold (\<lambda>(tk, t) d. if tk \<notin> fst ` set d \<or> overwrite then dict_set d tk t else d) new_text old_text"

fun update_mask_items ::
    "string \<Rightarrow> bool \<Rightarrow> mask_item list \<Rightarrow> mask_item list \<times> (string \<times> string list) list
       \<Rightarrow> error + (mask_item list \<times> (string \<times> string list) list)" where
  "update_mask_items mask_name overwrite [] acc = Inr acc"
| "update_mask_items mask_name overwrite (item # items) (old_items, sets) =
     (if item_source item \<in> item_source ` set old_items then
        update_mask_items mask_name overwrite items
          (map (\<lambda>old_item.
                  if item_source old_item = item_source item
                  then old_item\<lparr>item_text := update_text (item_text old_item) (item_text item) overwrite\<rparr>
                  else old_item) old_items,
           sets)
      else
        (case map_of sets mask_name of
           None \<Rightarrow> Inl (KeyError mask_name)
         | Some set_items \<Rightarrow>
             update_mask_items mask_name overwrite items
               (old_items @ [item], dict_set sets mask_name (set_items @ [item_source item]))))"

definition update_mask_meta :: "meta \<Rightarrow> meta \<Rightarrow> string \<Rightarrow> bool \<Rightarrow> error + meta" where
  "update_mask_meta left_meta right_meta mask_name overwrite =
     (case map_of (m_masks left_meta) mask_name of
        None \<Rightarrow> Inl (KeyError mask_name)
      | Some old \<Rightarrow>
          (case map_of (m_masks right_meta) mask_name of
             None \<Rightarrow> Inl (KeyError mask_name)
           | Some new \<Rightarrow>
               let old1 = old\<lparr>mask_text := update_text (mask_text old) (mask_text new) overwrite\<rparr>
               in bind_err (update_mask_items mask_name overwrite (mask_entries new)
                              (mask_entries old1, m_sets left_meta))
                    (\<lambda>(items, sets).
                       Inr (left_meta\<lparr>m_masks := dict_set (m_masks left_meta) mask_name
                                                      (old1\<lparr>mask_entries := items\<rparr>),
                                      m_sets := sets\<rparr>))))"

fun merge_masks :: "meta \<Rightarrow> meta \<Rightarrow> string list \<Rightarrow> bool \<Rightarrow> error + meta" where
  "merge_masks meta_left meta_right [] overwrite = Inr meta_left"
| "merge_masks meta_left meta_right (mask_name # masks) overwrite =
     (if mask_name \<notin> fst ` set (m_masks meta_left) then
        (case map_of (m_masks meta_right) mask_name of
           None \<Rightarrow> Inl (KeyError mask_name)
         | Some m \<Rightarrow>
             merge_masks (meta_left\<lparr>m_masks := dict_set (m_masks meta_left) mask_name m\<rparr>)
               meta_right masks overwrite)
      else
        bind_err (update_mask_meta meta_left meta_right mask_name overwrite)
          (\<lambda>meta_left2. merge_masks meta_left2 meta_right masks overwrite))"

definition merge_sets :: "meta \<Rightarrow> meta \<Rightarrow> meta" where
  "merge_sets meta_left meta_right =
     (let sets = filter (\<lambda>key. key \<notin> fst ` set (m_sets meta_left)) (map fst (m_sets meta_right))
      in meta_left\<lparr>m_sets :=
           fold (\<lambda>set_name d. dict_set d set_name (dict_get (m_sets meta_right) set_name []))
                (sort sets) (m_sets meta_left)\<rparr>)"

definition merge_lib_values :: "meta \<Rightarrow> meta \<Rightarrow> meta" where
  "merge_lib_values meta_left meta_right =
     meta_left\<lparr>m_lib_values :=
       fold (\<lambda>(val, right_vals) lib.
               case map_of lib val of
                 None \<Rightarrow> dict_set lib val right_vals
               | Some left_vals \<Rightarrow>
                   if val = ''ddf'' \<or> left_vals = right_vals then lib
                   else
                     (let n_values = map fst right_vals;
                          o_values = map fst left_vals;
                          add_values = filter (\<lambda>v. v \<notin> set o_values) n_values
                      in if add_values \<noteq> []
                         then dict_set lib val
                                (left_vals @ filter (\<lambda>value. fst value \<in> set add_values) right_vals)
                         else lib))
            (m_lib_values meta_right) (m_lib_values meta_left)\<rparr>"

definition update_properties ::
    "(string \<times> string) list option \<Rightarrow> (string \<times> string) list \<Rightarrow> (string \<times> string) list option" where
  "update_properties properties props =
     (case properties of
        None \<Rightarrow> None
      | Some ps \<Rightarrow> Some (fold (\<lambda>(k, v) d. dict_set d k v) props ps))"

fun merge_columns ::
    "(meta \<Rightarrow> column \<Rightarrow> column) \<Rightarrow> meta \<Rightarrow> bool \<Rightarrow> (string \<times> string) list \<Rightarrow> string list
       \<Rightarrow> meta \<times> string list \<times> string list
       \<Rightarrow> error + (meta \<times> string list \<times> string list)" where
  "merge_columns emulate_meta meta_right overwrite mask_items [] acc = Inr acc"
| "merge_columns emulate_meta meta_right overwrite mask_items (column_name # cols)
       (meta_left, col_updates, warnings) =
     (case map_of (m_columns meta_right) column_name of
        None \<Rightarrow> Inl (KeyError column_name)
      | Some rc \<Rightarrow>
          let props = (case col_properties rc of None \<Rightarrow> [] | Some ps \<Rightarrow> ps);
              right_column = emulate_meta meta_right rc
          in bind_err
               (case map_of (m_columns meta_left) column_name of
                  Some lc \<Rightarrow>
                    bind_err (merge_column_metadata (emulate_meta meta_left lc) right_column overwrite)
                      (\<lambda>(merged, ws). Inr (merged, col_updates @ [column_name], warnings @ ws))
                | None \<Rightarrow>
                    Inr (right_column\<lparr>col_properties :=
                           (case col_properties right_column of
                              None \<Rightarrow> Some [(''merged'', ''True'')]
                            | Some ps \<Rightarrow> if ps \<noteq> [] then Some (dict_set ps ''merged'' ''True'')
                                         else Some [(''merged'', ''True'')])\<rparr>,
                         col_updates, warnings))
               (\<lambda>(new_column, col_updates2, warnings2).
                  let c1 = new_column\<lparr>col_properties :=
                             update_properties (col_properties new_column) props\<rparr>;
                      c2 = (case map_of mask_items column_name of
                              None \<Rightarrow> c1
                            | Some ref \<Rightarrow> c1\<lparr>col_values := Some (ValueRef ref)\<rparr>)
                  in merge_columns emulate_meta meta_right overwrite mask_items cols
                       (meta_left\<lparr>m_columns := dict_set (m_columns meta_left) column_name c2\<rparr>,
                        col_updates2, warnings2)))"

definition append_data_file_items :: "meta \<Rightarrow> meta \<Rightarrow> string \<Rightarrow> error + meta" where
  "append_data_file_items meta_left meta_right from_set =
     (case map_of (m_sets meta_right) from_set of
        None \<Rightarrow> Inl (KeyError from_set)
      | Some items \<Rightarrow>
          (case map_of (m_sets meta_left) ''data file'' of
             None \<Rightarrow> (if items = [] then Inr meta_left else Inl (KeyError ''data file''))
           | Some left_items \<Rightarrow>
               Inr (meta_left\<lparr>m_sets := dict_set (m_sets meta_left) ''data file''
                      (fold (\<lambda>item ls. if item \<notin> set ls then ls @ [item] else ls) items left_items)\<rparr>)))"

definition merge_meta ::
    "(meta \<Rightarrow> column \<Rightarrow> column) \<Rightarrow> meta \<Rightarrow> meta \<Rightarrow> string option \<Rightarrow> bool
       \<Rightarrow> error + (meta \<times> string list \<times> string list \<times> string list)" where
  "merge_meta emulate_meta meta_left meta_right from_set_arg overwrite_text =
     (let from_set = (case from_set_arg of None \<Rightarrow> ''data file'' | Some s \<Rightarrow> s) in
      bind_err
        (case map_of (m_sets meta_right) from_set of
           Some items \<Rightarrow>
             bind_err (set_columns meta_right items ([], [], [])) (\<lambda>(cols0, masks, mask_items).
               let cols = uniquify_list cols0 in
               bind_err (merge_masks meta_left meta_right masks overwrite_text) (\<lambda>meta_left1.
                 Inr (merge_lib_values (merge_sets meta_left1 meta_right) meta_right,
                      Some cols, mask_items)))
         | None \<Rightarrow> Inr (meta_left, None, []))
        (\<lambda>(meta_left2, cols_opt, mask_items).
           case cols_opt of
             None \<Rightarrow> Inl (TypeError (quote ''NoneType'' @ '' object is not iterable''))
           | Some cols \<Rightarrow>
               bind_err (merge_columns emulate_meta meta_right overwrite_text mask_items cols
                           (meta_left2, [], []))
                 (\<lambda>(meta_left3, col_updates, warnings).
                    bind_err (append_data_file_items meta_left3 meta_right from_set)
                      (\<lambda>meta_left4. Inr (meta_left4, cols, col_updates, warnings)))))"

fun cell_equal :: "cell \<Rightarrow> cell \<Rightarrow> bool" where
  "cell_equal (IntV a) (IntV b) = (a = b)"
| "cell_equal (IntV a) (FloatV b) = (a = b)"
| "cell_equal (FloatV a) (IntV b) = (a = b)"
| "cell_equal (FloatV a) (FloatV b) = (a = b)"
| "cell_equal (StrV a) (StrV b) = (a = b)"
| "cell_equal NaN NaN = True"
| "cell_equal x y = False"

definition isin :: "cell \<Rightarrow> cell list \<Rightarrow> bool" where
  "isin x vs = list_ex (cell_equal x) vs"

fun keys_distinct :: "cell list \<Rightarrow> bool" where
  "keys_distinct [] = True"
| "keys_distinct (k # ks) = (\<not> isin k ks \<and> keys_distinct ks)"

definition cell_at :: "string list \<Rightarrow> cell list \<Rightarrow> string \<Rightarrow> cell" where
  "cell_at cols r c = (case map_of (zip cols r) c of None \<Rightarrow> NaN | Some x \<Rightarrow> x)"

definition get_column :: "frame \<Rightarrow> string \<Rightarrow> error + cell list" where
  "get_column df c =
     (if c \<in> set (columns df) then Inr (map (\<lambda>r. cell_at (columns df) r c) (rows df))
      else Inl (KeyError c))"

definition filter_rows :: "frame \<Rightarrow> (cell list \<Rightarrow> bool) \<Rightarrow> frame" where
  "filter_rows df keep =
     df\<lparr>index := map fst (filter (\<lambda>(l, r). keep r) (zip (index df) (rows df))),
        rows := filter keep (rows df)\<rparr>"

fun first_missing :: "string list \<Rightarrow> string list \<Rightarrow> string option" where
  "first_missing present [] = None"
| "first_missing present (c # cs) = (if c \<in> set present then first_missing present cs else Some c)"

datatype merge_existing = MergeNone | MergeAll | MergeCols "string list"

fun merges_sets :: "merge_existing \<Rightarrow> string \<Rightarrow> bool" where
  "merges_sets MergeNone c = False"
| "merges_sets MergeAll c = True"
| "merges_sets (MergeCols cs) c = (c \<in> set cs)"

definition aligned_right :: "frame \<Rightarrow> string \<Rightarrow> cell list \<Rightarrow> cell list \<Rightarrow> nat \<Rightarrow> cell \<Rightarrow> cell list option" where
  "aligned_right data_right right_on rk lk i k =
     (if list_all2 cell_equal rk lk then Some (rows data_right ! i)
      else find (\<lambda>y. cell_equal (cell_at (columns data_right) y right_on) k) (rows data_right))"

definition update_known ::
    "meta \<Rightarrow> frame \<Rightarrow> frame \<Rightarrow> string \<Rightarrow> string \<Rightarrow> bool \<Rightarrow> string list \<Rightarrow> merge_existing
       \<Rightarrow> error + frame" where
  "update_known meta_left data_left data_right left_on right_on update_right_on col_updates merge_ex =
     (case first_missing (remove1 left_on (columns data_left)) col_updates of
        Some c \<Rightarrow> Inl (KeyError c)
      | None \<Rightarrow>
          (case first_missing (if update_right_on then columns data_right
                               else remove1 right_on (columns data_right)) col_updates of
             Some c \<Rightarrow> Inl (KeyError c)
           | None \<Rightarrow>
               let lk = map (\<lambda>r. cell_at (columns data_left) r left_on) (rows data_left);
                   rk = map (\<lambda>r. cell_at (columns data_right) r right_on) (rows data_right);
                   sets = filter (\<lambda>c. map_option col_type (map_of (m_columns meta_left) c)
                                         = Some ''delimited set'') col_updates;
                   non_sets = filter (\<lambda>c. c \<notin> set sets) col_updates;
                   merged_sets = (if merge_ex = MergeNone \<or> merge_ex = MergeCols [] then []
                                  else filter (merges_sets merge_ex) sets)
               in if \<not> list_all2 cell_equal rk lk \<and> \<not> keys_distinct rk then
                    Inl (ValueError ''cannot reindex on an axis with duplicate labels'')
                  else if merged_sets \<noteq> [] \<and> \<not> keys_distinct lk then
                    Inl (NotModelled ''Series.combine over repeated left keys'')
                  else
                    let updata_left =
                          map (\<lambda>(i, x).
                                 let y = aligned_right data_right right_on rk lk i
                                           (cell_at (columns data_left) x left_on)
                                 in map (\<lambda>(c, v).
                                      if c \<in> set non_sets then
                                        (case y of
                                           None \<Rightarrow> v
                                         | Some yr \<Rightarrow>
                                             if cell_at (columns data_right) yr c \<noteq> NaN
                                             then cell_at (columns data_right) yr c else v)
                                      else if c \<in> set merged_sets then
                                        merge_set_cells v
                                          (case y of None \<Rightarrow> NaN
                                           | Some yr \<Rightarrow> cell_at (columns data_right) yr c)
                                      else v)
                                    (zip (columns data_left) x))
                              (zip [0 ..< length (rows data_left)] (rows data_left))
                    in Inr (data_left\<lparr>rows :=
                         map (\<lambda>(l, x).
                                map (\<lambda>(c, v).
                                       if c \<in> set col_updates then
                                         (if 0 \<le> l \<and> nat l < length updata_left
                                          then cell_at (columns data_left) (updata_left ! nat l) c
                                          else NaN)
                                       else v)
                                    (zip (columns data_left) x))
                             (zip (index data_left) (rows data_left))\<rparr>)))"

definition left_join :: "frame \<Rightarrow> frame \<Rightarrow> string \<Rightarrow> string \<Rightarrow> frame" where
  "left_join left right left_on right_on =
     (let right_cols = (if left_on = right_on then filter (\<lambda>c. c \<noteq> right_on) (columns right)
                        else columns right);
          overlap = (\<lambda>c. c \<in> set (columns left) \<and> c \<in> set right_cols);
          out_rows = concat (map (\<lambda>x.
                       let ms = filter (\<lambda>y. cell_equal (cell_at (columns right) y right_on)
                                                        (cell_at (columns left) x left_on))
                                       (rows right)
                       in if ms = [] then [x @ map (\<lambda>c. NaN) right_cols]
                          else map (\<lambda>y. x @ map (cell_at (columns right) y) right_cols) ms)
                     (rows left))
      in \<lparr>columns = map (\<lambda>c. if overlap c then c @ ''_x'' else c) (columns left)
                     @ map (\<lambda>c. if overlap c then c @ ''_y'' else c) right_cols,
          index = map int [0 ..< length out_rows],
          rows = out_rows\<rparr>)"

definition select_columns :: "frame \<Rightarrow> string list \<Rightarrow> error + frame" where
  "select_columns df cols =
     (case first_missing (columns df) cols of
        Some c \<Rightarrow> Inl (KeyError c)
      | None \<Rightarrow> Inr (df\<lparr>columns := cols, rows := map (\<lambda>r. map (cell_at (columns df) r) cols) (rows df)\<rparr>))"

definition drop_column :: "frame \<Rightarrow> string \<Rightarrow> error + frame" where
  "drop_column df c =
     (if c \<in> set (columns df)
      then Inr (df\<lparr>columns := filter (\<lambda>c'. c' \<noteq> c) (columns df),
                    rows := map (\<lambda>r. map snd (filter (\<lambda>(c', v). c' \<noteq> c) (zip (columns df) r))) (rows df)\<rparr>)
      else Inl (KeyError c))"

definition known_updates :: "string \<Rightarrow> string \<Rightarrow> string list \<Rightarrow> error + string list" where
  "known_updates left_on right_on col_updates =
     (if left_on = right_on
      then (if left_on \<in> set col_updates then Inr (remove1 left_on col_updates)
            else Inl (ValueError ''list.remove(x): x not in list''))
      else Inr col_updates)"

definition append_new ::
    "frame \<Rightarrow> frame \<Rightarrow> string \<Rightarrow> string \<Rightarrow> string list \<Rightarrow> string list \<Rightarrow> error + frame" where
  "append_new data_left data_right left_on right_on cols col_updates =
     (let update_right_on = (left_on \<noteq> right_on \<and> right_on \<in> set col_updates);
          new_cols = filter (\<lambda>c. c \<notin> set col_updates) cols
                     @ (if update_right_on then [right_on] else [])
      in bind_err (select_columns data_right new_cols) (\<lambda>right_part.
           if right_on \<notin> set new_cols then Inl (KeyError right_on)
           else
             let merged = left_join data_left right_part left_on right_on in
             if update_right_on
             then drop_column
                    (merged\<lparr>columns := map (\<lambda>c. if c = right_on @ ''_x'' then right_on else c)
                                          (columns merged)\<rparr>)
                    (right_on @ ''_y'')
             else Inr merged))"

definition hmerge_right ::
    "(meta \<Rightarrow> column \<Rightarrow> column) \<Rightarrow> string \<Rightarrow> string \<Rightarrow> bool \<Rightarrow> string option \<Rightarrow> merge_existing
       \<Rightarrow> meta \<times> frame \<times> string list \<Rightarrow> meta \<times> frame
       \<Rightarrow> error + (meta \<times> frame \<times> string list)" where
  "hmerge_right emulate_meta left_on right_on overwrite_text from_set merge_ex left ds_right =
     (case left of (meta_left, data_left, warnings) \<Rightarrow>
      case ds_right of (meta_right, data_right0) \<Rightarrow>
      bind_err (get_column data_right0 right_on) (\<lambda>right_keys.
      bind_err (get_column data_left left_on) (\<lambda>left_keys.
        let data_right = filter_rows data_right0
                           (\<lambda>r. isin (cell_at (columns data_right0) r right_on) left_keys)
        in bind_err (merge_meta emulate_meta meta_left meta_right from_set overwrite_text)
             (\<lambda>(meta_left2, cols, col_updates0, ws).
                bind_err (known_updates left_on right_on col_updates0) (\<lambda>col_updates.
                  bind_err (if col_updates \<noteq> []
                            then update_known meta_left2 data_left data_right left_on right_on
                                   (left_on \<noteq> right_on \<and> right_on \<in> set col_updates)
                                   col_updates merge_ex
                            else Inr data_left)
                    (\<lambda>data_left2.
                       bind_err (append_new data_left2 data_right left_on right_on cols col_updates)
                         (\<lambda>data_left3. Inr (meta_left2, data_left3, warnings @ ws))))))))"

fun hmerge_loop ::
    "(meta \<Rightarrow> column \<Rightarrow> column) \<Rightarrow> string \<Rightarrow> string \<Rightarrow> bool \<Rightarrow> string option \<Rightarrow> merge_existing
       \<Rightarrow> meta \<times> frame \<times> string list \<Rightarrow> (meta \<times> frame) list
       \<Rightarrow> error + (meta \<times> frame \<times> string list)" where
  "hmerge_loop emulate_meta left_on right_on overwrite_text from_set merge_ex left [] = Inr left"
| "hmerge_loop emulate_meta left_on right_on overwrite_text from_set merge_ex left (ds_right # rest) =
     bind_err (hmerge_right emulate_meta left_on right_on overwrite_text from_set merge_ex left ds_right)
       (\<lambda>left2. hmerge_loop emulate_meta left_on right_on overwrite_text
                   (Some (case from_set of None \<Rightarrow> ''data file'' | Some s \<Rightarrow> s)) merge_ex left2 rest)"

definition hmerge ::
    "(meta \<Rightarrow> column \<Rightarrow> column) \<Rightarrow> meta \<times> frame \<Rightarrow> (meta \<times> frame) list
       \<Rightarrow> string option \<Rightarrow> string option \<Rightarrow> string option \<Rightarrow> bool \<Rightarrow> string option \<Rightarrow> merge_existing
       \<Rightarrow> error + (meta \<times> frame \<times> string list)" where
  "hmerge emulate_meta dataset_left dataset_right on left_on right_on overwrite_text from_set merge_ex =
     (if on = None \<and> left_on = None \<and> right_on = None then
        Inl (TypeError (''You must provide a column name for either '' @ quote ''on'' @ '' or '' @
                        ''both '' @ quote ''left_on'' @ '' AND '' @ quote ''right_on''))
      else if on \<noteq> None \<and> \<not> (left_on = None \<and> right_on = None) then
        Inl (ValueError (''You cannot provide a value for both '' @ quote ''on'' @ '' and either/'' @
                         ''both '' @ quote ''left_on'' @ ''/'' @ quote ''right_on'' @ ''.''))
      else if on = None \<and> (left_on = None \<or> right_on = None) then
        Inl (TypeError (''You must provide a column name for both '' @ quote ''left_on'' @ '' '' @
                        ''AND '' @ quote ''right_on''))
      else
        (let l = (case on of Some k \<Rightarrow> k | None \<Rightarrow> the left_on);
             r = (case on of Some k \<Rightarrow> k | None \<Rightarrow> the right_on)
         in hmerge_loop emulate_meta l r overwrite_text from_set merge_ex
              (fst dataset_left, snd dataset_left, []) dataset_right))"

fun get_columns_from_mask :: "nat \<Rightarrow> meta \<Rightarrow> string \<Rightarrow> error + string list"
  and get_columns_from_set :: "nat \<Rightarrow> meta \<Rightarrow> string \<Rightarrow> error + string list"
  and mask_item_columns :: "nat \<Rightarrow> meta \<Rightarrow> mask_item list \<Rightarrow> error + string list"
  and set_item_columns :: "nat \<Rightarrow> meta \<Rightarrow> string list \<Rightarrow> error + string list" where
  "get_columns_from_mask 0 meta mask_name = Inl (NotModelled ''RecursionError'')"
| "get_columns_from_mask (Suc fuel) meta mask_name =
     (case map_of (m_masks meta) mask_name of
        None \<Rightarrow> Inl (KeyError mask_name)
      | Some m \<Rightarrow> mask_item_columns fuel meta (mask_entries m))"
| "get_columns_from_set 0 meta set_name = Inl (NotModelled ''RecursionError'')"
| "get_columns_from_set (Suc fuel) meta set_name =
     (case map_of (m_sets meta) set_name of
        None \<Rightarrow> Inl (KeyError set_name)
      | Some items \<Rightarrow> bind_err (set_item_columns fuel meta items) (\<lambda>cols. Inr (uniquify_list cols)))"
| "mask_item_columns fuel meta [] = Inr []"
| "mask_item_columns fuel meta (item # items) =
     bind_err (split_at (item_source item)) (\<lambda>(source, nm).
       bind_err (if source = ''columns'' then Inr [nm]
                 else if source = ''masks'' then get_columns_from_mask fuel meta nm
                 else if source = ''sets'' then get_columns_from_set fuel meta nm
                 else Inl (KeyError (''Unsupported meta-mapping: '' @ item_source item)))
         (\<lambda>cols. bind_err (mask_item_columns fuel meta items) (\<lambda>rest. Inr (cols @ rest))))"
| "set_item_columns fuel meta [] = Inr []"
| "set_item_columns fuel meta (item # items) =
     bind_err (split_at item) (\<lambda>(source, nm).
       bind_err (if source = ''columns'' then Inr [nm]
                 else if source = ''masks'' then get_columns_from_mask fuel meta nm
                 else if source = ''sets'' then get_columns_from_set fuel meta nm
                 else Inl (KeyError (''Unsupported meta-mapping: '' @ item)))
         (\<lambda>cols. bind_err (set_item_columns fuel meta items) (\<lambda>rest. Inr (cols @ rest))))"

definition recursion_limit :: nat where
  "recursion_limit = 1000"

fun to_delimited :: "cell \<Rightarrow> error + cell" where
  "to_delimited NaN = Inr NaN"
| "to_delimited (IntV i) = Inr (StrV (str_int i @ '';''))"
| "to_delimited (FloatV i) = Inr (StrV (str_int i @ '';''))"
| "to_delimited (StrV s) = Inl (TypeError ''ufunc isnan not supported for the input types'')"

fun map_err :: "('a \<Rightarrow> error + 'b) \<Rightarrow> 'a list \<Rightarrow> error + 'b list" where
  "map_err f [] = Inr []"
| "map_err f (x # xs) = bind_err (f x) (\<lambda>y. bind_err (map_err f xs) (\<lambda>ys. Inr (y # ys)))"

fun upcast_sets :: "meta \<Rightarrow> meta \<Rightarrow> string list \<Rightarrow> frame \<Rightarrow> error + frame" where
  "upcast_sets meta_left meta_right [] data_right = Inr data_right"
| "upcast_sets meta_left meta_right (c # cs) data_right =
     (if map_option col_type (map_of (m_columns meta_left) c) = Some ''delimited set'' then
        (case map_of (m_columns meta_right) c of
           None \<Rightarrow> Inl (KeyError c)
         | Some rc \<Rightarrow>
             if col_type rc \<noteq> ''delimited set'' then
               bind_err (map_err (\<lambda>r. map_err (\<lambda>(c', v). if c' = c then to_delimited v else Inr v)
                                          (zip (columns data_right) r))
                                 (rows data_right))
                 (\<lambda>rows2. upcast_sets meta_left meta_right cs (data_right\<lparr>rows := rows2\<rparr>))
             else upcast_sets meta_left meta_right cs data_right)
      else upcast_sets meta_left meta_right cs data_right)"

definition vmerge ::
    "(meta \<Rightarrow> column \<Rightarrow> column) \<Rightarrow> meta \<times> frame \<Rightarrow> meta \<times> frame
       \<Rightarrow> string option \<Rightarrow> string option \<Rightarrow> string option \<Rightarrow> bool \<Rightarrow> string option \<Rightarrow> bool
       \<Rightarrow> error + (meta \<times> frame \<times> string list)" where
  "vmerge emulate_meta dataset_left dataset_right on left_on0 right_on0 overwrite_text from_set_arg
          reset_index =
     (let from_set = (case from_set_arg of None \<Rightarrow> ''data file'' | Some s \<Rightarrow> s);
          blind_append = (on = None \<and> left_on0 = None \<and> right_on0 = None)
      in
      if \<not> blind_append \<and> on = None \<and> (left_on0 = None \<or> right_on0 = None) then
        Inl (ValueError (''You may not provide a value for only one of'' @
                         quote ''left_on'' @ ''/'' @ quote ''right_on'' @ ''.''))
      else if \<not> blind_append \<and> on \<noteq> None \<and> (left_on0 \<noteq> None \<or> right_on0 \<noteq> None) then
        Inl (ValueError (''You cannot provide a value for both '' @ quote ''on'' @ '' and either/'' @
                         ''both '' @ quote ''left_on'' @ ''/'' @ quote ''right_on'' @ ''.''))
      else
        let left_on = (case on of Some k \<Rightarrow> k | None \<Rightarrow> (case left_on0 of Some k \<Rightarrow> k | None \<Rightarrow> []));
            right_on = (case on of Some k \<Rightarrow> k | None \<Rightarrow> (case right_on0 of Some k \<Rightarrow> k | None \<Rightarrow> []));
            meta_left = fst dataset_left; data_left = snd dataset_left;
            meta_right = fst dataset_right; data_right0 = snd dataset_right
        in
        if \<not> blind_append \<and> left_on \<notin> set (columns data_left) then
          Inl (KeyError (quote left_on @ '' not found in the left data.''))
        else if \<not> blind_append \<and> left_on \<notin> fst ` set (m_columns meta_left) then
          Inl (KeyError (quote left_on @ '' not found in the left meta.''))
        else if \<not> blind_append \<and> right_on \<notin> set (columns data_left) then
          Inl (KeyError (quote right_on @ '' not found in the right data.''))
        else if \<not> blind_append \<and> right_on \<notin> fst ` set (m_columns meta_left) then
          Inl (KeyError (quote right_on @ '' not found in the right meta.''))
        else
          bind_err (merge_meta emulate_meta meta_left meta_right (Some from_set) overwrite_text)
            (\<lambda>(meta_left2, cols, col_updates, ws).
               bind_err (if \<not> blind_append then
                           bind_err (get_column data_right0 left_on) (\<lambda>right_vals.
                           bind_err (get_column data_left right_on) (\<lambda>left_vals.
                             Inr (filter_rows data_right0
                                    (\<lambda>r. \<not> isin (cell_at (columns data_right0) r left_on) left_vals))))
                         else Inr data_right0)
                 (\<lambda>data_right1.
                    bind_err (upcast_sets meta_left2 meta_right (columns data_right1) data_right1)
                      (\<lambda>data_right.
                         bind_err (get_columns_from_set recursion_limit meta_right from_set)
                           (\<lambda>set_cols.
                              let cols_left = columns data_left;
                                  col_slicer = cols_left @ filter (\<lambda>c. c \<notin> set cols_left) set_cols
                              in case first_missing (cols_left @ columns data_right) col_slicer of
                                   Some c \<Rightarrow> Inl (KeyError c)
                                 | None \<Rightarrow>
                                     let vrows = map (\<lambda>r. map (cell_at (columns data_left) r) col_slicer)
                                                     (rows data_left)
                                               @ map (\<lambda>r. map (cell_at (columns data_right) r) col_slicer)
                                                     (rows data_right)
                                     in Inr (meta_left2,
                                             \<lparr>columns = col_slicer,
                                                index = (if reset_index then map int [0 ..< length vrows]
                                                         else index data_left @ index data_right),
                                                rows = vrows\<rparr>,
                                             ws))))))"

definition plain_column :: "string \<Rightarrow> string \<Rightarrow> column" where
  "plain_column nm typ =
     \<lparr>col_name = nm, col_type = typ, col_text = [], col_values = None, col_properties = None\<rparr>"

definition meta_ab :: meta where
  "meta_ab =
     \<lparr>m_columns = [(''a'', plain_column ''a'' ''int''), (''b'', plain_column ''b'' ''int'')],
        m_masks = [], m_sets = [(''data file'', [''columns@a'', ''columns@b''])],
        m_lib_values = []\<rparr>"

definition meta_id :: meta where
  "meta_id =
     \<lparr>m_columns = [(''id'', plain_column ''id'' ''int'')],
        m_masks = [], m_sets = [(''data file'', [''columns@id''])], m_lib_values = []\<rparr>"

definition meta_id_x :: meta where
  "meta_id_x =
     \<lparr>m_columns = [(''id'', plain_column ''id'' ''int''), (''x'', plain_column ''x'' ''single'')],
        m_masks = [], m_sets = [(''data file'', [''columns@id'', ''columns@x''])],
        m_lib_values = []\<rparr>"

definition meta_id_q :: meta where
  "meta_id_q =
     \<lparr>m_columns = [(''id'', plain_column ''id'' ''int''), (''q'', plain_column ''q'' ''delimited set'')],
        m_masks = [], m_sets = [(''data file'', [''columns@id'', ''columns@q''])],
        m_lib_values = []\<rparr>"


lemma digit_char_in: "d < 10 \<Longrightarrow> digit_char d \<in> set ''0123456789''"
  unfolding digit_char_def by (rule nth_mem) simp

lemma digit_val_char: "d < 10 \<Longrightarrow> digit_val (digit_char d) = d"
proof -
  assume "d < 10"
  then have "d \<in> {0,1,2,3,4,5,6,7,8,9}" by auto
  then show ?thesis by (auto simp: digit_val_def digit_char_def)
qed

lemma str_nat_nonempty: "str_nat n \<noteq> []"
  by (subst str_nat.simps) simp

lemma str_nat_chars: "set (str_nat n) \<subseteq> set ''0123456789''"
proof (induction n rule: str_nat.induct)
  case (1 n)
  show ?case
  proof (cases "n < 10")
    case True
    then show ?thesis using digit_char_in [of n] by (subst str_nat.simps) simp
  next
    case False
    have "n mod 10 < 10" by simp
    then have "digit_char (n mod 10) \<in> set ''0123456789''" by (rule digit_char_in)
    with False 1 show ?thesis by (subst str_nat.simps) simp
  qed
qed

lemma val_digits_snoc: "val_digits (s @ [c]) = 10 * val_digits s + digit_val c"
  by (simp add: val_digits_def)

lemma val_digits_str_nat: "val_digits (str_nat n) = n"
proof (induction n rule: str_nat.induct)
  case (1 n)
  show ?case
  proof (cases "n < 10")
    case True
    then show ?thesis by (subst str_nat.simps) (simp add: val_digits_def digit_val_char)
  next
    case False
    with 1 have "val_digits (str_nat (n div 10)) = n div 10" by simp
    with False show ?thesis
      by (subst str_nat.simps) (simp add: val_digits_snoc digit_val_char)
  qed
qed

lemma str_nat_inj: "str_nat a = str_nat b \<Longrightarrow> a = b"
  by (metis val_digits_str_nat)

lemma str_int_chars: "set (str_int i) \<subseteq> set ''-0123456789''"
proof -
  have *: "set ''-0123456789'' = insert CHR ''-'' (set ''0123456789'')" by simp
  show ?thesis
  proof (cases "i < 0")
    case True
    then have "set (str_int i) = insert CHR ''-'' (set (str_nat (nat (- i))))"
      by (simp add: str_int_def)
    then show ?thesis unfolding * using str_nat_chars [of "nat (- i)"] by blast
  next
    case False
    then have "set (str_int i) = set (str_nat (nat i))"
      by (simp add: str_int_def)
    then show ?thesis unfolding * using str_nat_chars [of "nat i"] by blast
  qed
qed

lemma str_int_inj: "str_int a = str_int b \<Longrightarrow> a = b"
proof -
  assume eq: "str_int a = str_int b"
  have nodash: "\<And>n. CHR ''-'' \<notin> set (str_nat n)" using str_nat_chars by fastforce
  have hdn: "\<And>n. hd (str_nat n) \<noteq> CHR ''-''"
    using nodash str_nat_nonempty by (metis list.set_sel(1))
  show ?thesis
  proof (cases "a < 0")
    case True
    show ?thesis
    proof (cases "b < 0")
      case True
      with \<open>a < 0\<close> eq have "str_nat (nat (- a)) = str_nat (nat (- b))" by (simp add: str_int_def)
      then have "nat (- a) = nat (- b)" by (rule str_nat_inj)
      with True \<open>a < 0\<close> show ?thesis by simp
    next
      case False
      with \<open>a < 0\<close> eq have "CHR ''-'' # str_nat (nat (- a)) = str_nat (nat b)" by (simp add: str_int_def)
      then have "hd (str_nat (nat b)) = CHR ''-''" by (metis list.sel(1))
      with hdn show ?thesis by simp
    qed
  next
    case False
    show ?thesis
    proof (cases "b < 0")
      case True
      with False eq have "str_nat (nat a) = CHR ''-'' # str_nat (nat (- b))" by (simp add: str_int_def)
      then have "hd (str_nat (nat a)) = CHR ''-''" by (metis list.sel(1))
      with hdn show ?thesis by simp
    next
      case b: False
      with False eq have "str_nat (nat a) = str_nat (nat b)" by (simp add: str_int_def)
      then have "nat a = nat b" by (rule str_nat_inj)
      with False b show ?thesis by simp
    qed
  qed
qed

lemma str_int_no_n: "CHR ''n'' \<notin> set (str_int i)"
proof
  assume "CHR ''n'' \<in> set (str_int i)"
  with str_int_chars [of i] have "CHR ''n'' \<in> set ''-0123456789''" by (rule subsetD)
  then show False by simp
qed

lemma str_int_no_dot_char: "CHR ''.'' \<notin> set (str_int i)"
proof
  assume "CHR ''.'' \<in> set (str_int i)"
  with str_int_chars [of i] have "CHR ''.'' \<in> set ''-0123456789''" by (rule subsetD)
  then show False by simp
qed

lemma str_int_not_nan: "str_int i \<noteq> ''nan''"
  using str_int_no_n [of i] by auto

lemma str_int_dot_not_nan: "str_int i @ ''.0'' \<noteq> ''nan''"
proof
  assume "str_int i @ ''.0'' = ''nan''"
  then have "last (str_int i @ ''.0'') = last ''nan''" by (rule arg_cong)
  then show False by simp
qed

lemma str_int_no_dot: "str_int a \<noteq> str_int b @ ''.0''"
proof
  assume "str_int a = str_int b @ ''.0''"
  then have "CHR ''.'' \<in> set (str_int a)" by simp
  with str_int_no_dot_char show False by simp
qed

definition selected :: "int \<Rightarrow> string list \<Rightarrow> cell list \<Rightarrow> string list" where
  "selected yes vs r = map fst (filter (\<lambda>(v, x). cell_eq_int x yes) (zip vs r))"

lemma token_not_yes:
  assumes "\<not> cell_eq_int x yes"
  shows "replace_yes yes v (replace_no no
           (cell_str (if cell_eq_int x yes \<or> cell_eq_int x no then x else IntV no))) = ''nan''"
proof -
  have nan: "replace_yes yes v ''nan'' = ''nan''"
    using str_int_not_nan [of yes] str_int_dot_not_nan [of yes]
    by (simp add: replace_yes_def del: append.simps)
  have "replace_no no (cell_str (if cell_eq_int x yes \<or> cell_eq_int x no then x else IntV no)) = ''nan''"
    using assms by (cases x) (simp_all add: replace_no_def)
  with nan show ?thesis by simp
qed

lemma token_yes:
  assumes "yes \<noteq> no" and "cell_eq_int x yes"
  shows "replace_yes yes v (replace_no no
           (cell_str (if cell_eq_int x yes \<or> cell_eq_int x no then x else IntV no))) = v"
proof -
  have ne: "str_int yes \<noteq> str_int no" using assms(1) str_int_inj by blast
  have a: "replace_no no (str_int yes) = str_int yes"
    using ne str_int_not_nan [of yes] str_int_no_dot [of yes no]
    by (simp add: replace_no_def del: append.simps)
  have b: "replace_no no (str_int yes @ ''.0'') = str_int yes @ ''.0''"
    using ne str_int_dot_not_nan [of yes] str_int_no_dot [of no yes]
    by (auto simp add: replace_no_def simp del: append.simps)
  have c: "replace_yes yes v (str_int yes) = v" by (simp add: replace_yes_def)
  have d: "replace_yes yes v (str_int yes @ ''.0'') = v" by (simp add: replace_yes_def)
  from assms(2) show ?thesis
    by (cases x) (simp_all add: a b c d)
qed

lemma row_tokens:
  assumes "yes \<noteq> no"
  shows "filter (\<lambda>v. v \<noteq> ''nan'')
           (map (\<lambda>(v, s). replace_yes yes v (replace_no no s))
              (zip vs (map (\<lambda>x. cell_str (if cell_eq_int x yes \<or> cell_eq_int x no then x else IntV no)) r)))
         = filter (\<lambda>v. v \<noteq> ''nan'') (selected yes vs r)"
proof (induction vs arbitrary: r)
  case Nil
  show ?case by (simp add: selected_def)
next
  case (Cons v vs)
  show ?case
  proof (cases r)
    case Nil
    then show ?thesis by (simp add: selected_def)
  next
    case (Cons x xs)
    have IH: "filter (\<lambda>v. v \<noteq> ''nan'')
           (map (\<lambda>(v, s). replace_yes yes v (replace_no no s))
              (zip vs (map (\<lambda>x. cell_str (if cell_eq_int x yes \<or> cell_eq_int x no then x else IntV no)) xs)))
         = filter (\<lambda>v. v \<noteq> ''nan'') (selected yes vs xs)" by (rule Cons.IH)
    show ?thesis
    proof (cases "cell_eq_int x yes")
      case True
      from token_yes [OF assms True, of v]
      show ?thesis using True IH unfolding Cons selected_def by simp
    next
      case False
      from token_not_yes [OF False, of v no]
      show ?thesis using False IH unfolding Cons selected_def by simp
    qed
  qed
qed

lemma row_tokens_none:
  assumes "\<forall>x \<in> set r. \<not> cell_eq_int x yes"
  shows "filter (\<lambda>v. v \<noteq> ''nan'')
           (map (\<lambda>(v, s). replace_yes yes v (replace_no no s))
              (zip vs (map (\<lambda>x. cell_str (if cell_eq_int x yes \<or> cell_eq_int x no then x else IntV no)) r)))
         = []"
  using assms
proof (induction vs arbitrary: r)
  case Nil
  show ?case by simp
next
  case (Cons v vs)
  show ?case
  proof (cases r)
    case Nil
    then show ?thesis by simp
  next
    case (Cons x xs)
    with Cons.prems have nx: "\<not> cell_eq_int x yes" and rest: "\<forall>x \<in> set xs. \<not> cell_eq_int x yes"
      by simp_all
    from token_not_yes [OF nx, of v no] Cons.IH [OF rest]
    show ?thesis unfolding Cons by simp
  qed
qed

lemma join_py_trailing:
  "toks \<noteq> [] \<Longrightarrow> join_py '';'' toks @ '';'' = concat (map (\<lambda>v. v @ '';'') toks)"
  by (induction "'';''" toks rule: join_py.induct) simp_all

lemma join_py_semicolon:
  "(join_py '';'' toks @ '';'' = '';'') = (toks = [] \<or> toks = [''''])"
proof (cases toks)
  case Nil
  then show ?thesis by simp
next
  case (Cons a as)
  show ?thesis
  proof (cases as)
    case Nil
    with Cons show ?thesis by simp
  next
    case (Cons b bs)
    have "length (join_py '';'' (a # b # bs) @ '';'') \<ge> 2" by simp
    then have "join_py '';'' (a # b # bs) @ '';'' \<noteq> '';''" by auto
    with Cons \<open>toks = a # as\<close> show ?thesis by simp
  qed
qed

lemma condense_rows:
  assumes "yes \<noteq> no"
  shows "condense_dichotomous_set df vfl yes no =
    map (\<lambda>r. let toks = filter (\<lambda>v. v \<noteq> ''nan'') (selected yes (column_values vfl (columns df)) r)
              in if toks = [] \<or> toks = [''''] then NaN
                 else StrV (concat (map (\<lambda>v. v @ '';'') toks)))
        (rows df)"
proof -
  have "\<And>r. (let s = join_py '';'' (filter (\<lambda>v. v \<noteq> ''nan'') (selected yes (column_values vfl (columns df)) r)) @ '';''
             in if s = '';'' then NaN else StrV s)
        = (let toks = filter (\<lambda>v. v \<noteq> ''nan'') (selected yes (column_values vfl (columns df)) r)
              in if toks = [] \<or> toks = [''''] then NaN
                 else StrV (concat (map (\<lambda>v. v @ '';'') toks)))"
    using join_py_semicolon join_py_trailing by (simp add: Let_def del: join_py.simps)
  then show ?thesis
    unfolding condense_dichotomous_set_def Let_def
    by (simp add: row_tokens [OF assms] o_def Let_def del: join_py.simps)
qed

lemma selected_comprehension:
  "[v. (v, x) \<leftarrow> zs, P x] = map fst (filter (\<lambda>(v, x). P x) zs)"
  by (induction zs) auto

lemma condense_unfold:
  "condense_dichotomous_set df vfl yes no =
     map (\<lambda>r. let s = join_py '';'' (filter (\<lambda>v. v \<noteq> ''nan'')
                    (map (\<lambda>(v, s). replace_yes yes v (replace_no no s))
                       (zip (column_values vfl (columns df))
                          (map (\<lambda>x. cell_str (if cell_eq_int x yes \<or> cell_eq_int x no then x else IntV no)) r)))) @ '';''
               in if s = '';'' then NaN else StrV s) (rows df)"
  unfolding condense_dichotomous_set_def Let_def
  by (simp add: o_def del: join_py.simps)

lemma condense_length: "length (condense_dichotomous_set df vfl yes no) = length (rows df)"
  by (simp add: condense_unfold)

lemma condense_no_blank: "StrV [] \<notin> set (condense_dichotomous_set df vfl yes no)"
proof
  assume "StrV [] \<in> set (condense_dichotomous_set df vfl yes no)"
  then obtain s where "StrV [] = (if s @ '';'' = '';'' then NaN else StrV (s @ '';''))"
    unfolding condense_unfold Let_def by auto
  then show False by (simp split: if_splits)
qed

lemma condense_row_no_yes:
  assumes "i < length (rows df)" and "\<forall>x \<in> set (rows df ! i). \<not> cell_eq_int x yes"
  shows "condense_dichotomous_set df vfl yes no ! i = NaN"
  using assms(1) row_tokens_none [OF assms(2)]
  by (simp add: condense_unfold Let_def)

lemma str_nat_not_special: "str_nat n \<noteq> []" "str_nat n \<noteq> ''nan''"
proof -
  show "str_nat n \<noteq> []" by (rule str_nat_nonempty)
  show "str_nat n \<noteq> ''nan''"
  proof
    assume "str_nat n = ''nan''"
    then have "CHR ''n'' \<in> set (str_nat n)" by simp
    with str_nat_chars [of n] have "CHR ''n'' \<in> set ''0123456789''" by (rule_tac subsetD)
    then show False by simp
  qed
qed

text \<open>
  Claim C2 (amended).  \<open>condense_dichotomous_set\<close> maps each yes-valued column to its
  code and joins the codes, each followed by \<open>;\<close>, in the order of the frame's columns:
  it does not sort them.  The codes are the label suffixes after the last underscore when
  \<open>values_from_labels\<close> is true and the decimals of \<open>1..N\<close> otherwise; a row
  with no yes-valued column is missing.  Codes that are empty or read \<open>nan\<close> are set
  aside by the hypothesis.
\<close>

theorem condense_keeps_column_order:
  assumes "yes \<noteq> no"
    and "\<forall>v \<in> set (column_values vfl (columns df)). v \<noteq> [] \<and> v \<noteq> ''nan''"
  shows "condense_dichotomous_set df vfl yes no =
           map (\<lambda>r. let codes = [v. (v, x) \<leftarrow> zip (column_values vfl (columns df)) r, cell_eq_int x yes]
                     in if codes = [] then NaN else StrV (concat (map (\<lambda>v. v @ '';'') codes)))
               (rows df)"
proof -
  have sub: "\<And>r. set (selected yes (column_values vfl (columns df)) r) \<subseteq> set (column_values vfl (columns df))"
    unfolding selected_def by (auto dest: set_zip_leftD)
  have keep: "\<And>r. filter (\<lambda>v. v \<noteq> ''nan'') (selected yes (column_values vfl (columns df)) r)
                  = selected yes (column_values vfl (columns df)) r"
    using sub assms(2) by (intro filter_True) blast
  have ne: "\<And>r. selected yes (column_values vfl (columns df)) r \<noteq> [[]]"
  proof
    fix r assume "selected yes (column_values vfl (columns df)) r = [[]]"
    then have "[] \<in> set (selected yes (column_values vfl (columns df)) r)" by simp
    with sub assms(2) show False by blast
  qed
  show ?thesis
    unfolding condense_rows [OF assms(1)] selected_comprehension
    using keep ne by (simp add: Let_def selected_def)
qed

text \<open>The row \<open>[1, 0, 1]\<close> over \<open>q_1, q_2, q_3\<close> gives \<open>1;3;\<close>.\<close>

theorem condense_keeps_column_order_witness:
  "condense_dichotomous_set
     \<lparr>columns = [''q_1'', ''q_2'', ''q_3''], index = [0], rows = [[IntV 1, IntV 0, IntV 1]]\<rparr>
     True 1 0 = [StrV ''1;3;'']"
proof -
  have "\<forall>v \<in> set (column_values True (columns \<lparr>columns = [''q_1'', ''q_2'', ''q_3''], index = [0::int],
            rows = [[IntV 1, IntV 0, IntV 1]]\<rparr>)). v \<noteq> [] \<and> v \<noteq> ''nan''"
    by (simp add: column_values_def)
  from condense_keeps_column_order [OF _ this, of 1 0]
  show ?thesis by (simp add: column_values_def)
qed

text \<open>
  With the columns in the order \<open>q_2, q_1\<close> and both selected, the codes come out
  as \<open>2;1;\<close>, not ascending.
\<close>

theorem condense_not_sorted_counterexample:
  "condense_dichotomous_set
     \<lparr>columns = [''q_2'', ''q_1''], index = [0], rows = [[IntV 1, IntV 1]]\<rparr> True 1 0
   = [StrV ''2;1;'']"
  by (simp add: condense_dichotomous_set_def column_values_def replace_yes_def replace_no_def
        str_int_def str_nat.simps digit_char_def)

text \<open>
  Claim C3.  A row in which no cell equals \<open>yes\<close> condenses to the missing value;
  no row ever condenses to the empty string; the result has one entry per row; and a frame
  whose cells are all missing condenses to an all-missing series.  The function has no
  failing branch on this path, so it is a total function of the frame.
\<close>

theorem condense_no_yes_missing:
  "(\<forall>i < length (rows df). (\<forall>x \<in> set (rows df ! i). \<not> cell_eq_int x yes)
        \<longrightarrow> condense_dichotomous_set df vfl yes no ! i = NaN)
   \<and> StrV [] \<notin> set (condense_dichotomous_set df vfl yes no)
   \<and> length (condense_dichotomous_set df vfl yes no) = length (rows df)
   \<and> ((\<forall>r \<in> set (rows df). \<forall>x \<in> set r. x = NaN)
        \<longrightarrow> condense_dichotomous_set df vfl yes no = replicate (length (rows df)) NaN)"
proof (intro conjI allI impI)
  fix i assume "i < length (rows df)" "\<forall>x \<in> set (rows df ! i). \<not> cell_eq_int x yes"
  then show "condense_dichotomous_set df vfl yes no ! i = NaN" by (rule condense_row_no_yes)
next
  show "StrV [] \<notin> set (condense_dichotomous_set df vfl yes no)" by (rule condense_no_blank)
next
  show "length (condense_dichotomous_set df vfl yes no) = length (rows df)" by (rule condense_length)
next
  assume all: "\<forall>r \<in> set (rows df). \<forall>x \<in> set r. x = NaN"
  show "condense_dichotomous_set df vfl yes no = replicate (length (rows df)) NaN"
  proof (rule nth_equalityI)
    show "length (condense_dichotomous_set df vfl yes no) = length (replicate (length (rows df)) NaN)"
      by (simp add: condense_length)
  next
    fix i assume "i < length (condense_dichotomous_set df vfl yes no)"
    then have i: "i < length (rows df)" by (simp add: condense_length)
    then have "rows df ! i \<in> set (rows df)" by simp
    with all have "\<forall>x \<in> set (rows df ! i). x = NaN" by blast
    then have "\<forall>x \<in> set (rows df ! i). \<not> cell_eq_int x yes" by auto
    with i have "condense_dichotomous_set df vfl yes no ! i = NaN" by (rule condense_row_no_yes)
    with i show "condense_dichotomous_set df vfl yes no ! i = replicate (length (rows df)) NaN ! i"
      by simp
  qed
qed

theorem condense_no_yes_missing_witness:
  "condense_dichotomous_set
     \<lparr>columns = [''q_1'', ''q_2''], index = [0, 1], rows = [[IntV 0, FloatV 0], [NaN, NaN]]\<rparr> True 1 0 ! 0 = NaN
   \<and> condense_dichotomous_set
     \<lparr>columns = [''q_1'', ''q_2''], index = [0, 1], rows = [[NaN, NaN], [NaN, NaN]]\<rparr> True 1 0 = [NaN, NaN]"
proof -
  have a: "condense_dichotomous_set
     \<lparr>columns = [''q_1'', ''q_2''], index = [0, 1], rows = [[IntV 0, FloatV 0], [NaN, NaN]]\<rparr> True 1 0 ! 0 = NaN"
    using condense_no_yes_missing [of "\<lparr>columns = [''q_1'', ''q_2''], index = [0, 1], rows = [[IntV 0, FloatV 0], [NaN, NaN]]\<rparr>" 1 True 0]
    by simp
  have b: "condense_dichotomous_set
     \<lparr>columns = [''q_1'', ''q_2''], index = [0, 1], rows = [[NaN, NaN], [NaN, NaN]]\<rparr> True 1 0 = [NaN, NaN]"
    using condense_no_yes_missing [of "\<lparr>columns = [''q_1'', ''q_2''], index = [0, 1], rows = [[NaN, NaN], [NaN, NaN]]\<rparr>" 1 True 0]
    by simp
  from a b show ?thesis by simp
qed

text \<open>
  Claim C10.  A cell that equals neither \<open>yes\<close> nor \<open>no\<close> (a number such
  as 2, a string, the missing value) is treated as \<open>no\<close>: putting such a value at
  any position of any frame gives the same series as putting \<open>no\<close> there, so the
  cell contributes no code.
\<close>

theorem condense_other_values_as_no:
  assumes "\<not> cell_eq_int x yes" and "\<not> cell_eq_int x no"
  shows "condense_dichotomous_set (df\<lparr>rows := (rows df)[i := (rows df ! i)[j := x]]\<rparr>) vfl yes no
         = condense_dichotomous_set (df\<lparr>rows := (rows df)[i := (rows df ! i)[j := IntV no]]\<rparr>) vfl yes no"
proof -
  let ?f = "\<lambda>x. if cell_eq_int x yes \<or> cell_eq_int x no then x else IntV no"
  have "map ?f ((rows df ! i)[j := x]) = map ?f ((rows df ! i)[j := IntV no])"
    using assms by (simp add: map_update)
  then have "map (map ?f) ((rows df)[i := (rows df ! i)[j := x]])
           = map (map ?f) ((rows df)[i := (rows df ! i)[j := IntV no]])"
    by (simp add: map_update)
  then show ?thesis
    unfolding condense_dichotomous_set_def by simp
qed

theorem condense_other_values_as_no_witness:
  "condense_dichotomous_set
     \<lparr>columns = [''q_1'', ''q_2'', ''q_3''], index = [0], rows = [[IntV 1, StrV ''x'', IntV 2]]\<rparr> True 1 0
   = condense_dichotomous_set
     \<lparr>columns = [''q_1'', ''q_2'', ''q_3''], index = [0], rows = [[IntV 1, StrV ''x'', IntV 0]]\<rparr> True 1 0"
  using condense_other_values_as_no [of "IntV 2" 1 0
      "\<lparr>columns = [''q_1'', ''q_2'', ''q_3''], index = [0], rows = [[IntV 1, StrV ''x'', NaN]]\<rparr>" 0 2 True]
  by simp

subsection \<open>Joining delimited sets\<close>

lemma collect_codes_set:
  "set (collect_codes acc xs) = set acc \<union> {x \<in> set xs. x \<noteq> []}"
  by (induction xs arbitrary: acc) auto

lemma collect_codes_distinct:
  "distinct acc \<Longrightarrow> distinct (collect_codes acc xs)"
  by (induction xs arbitrary: acc) auto

lemma replace_nan_id: "CHR ''n'' \<notin> set s \<Longrightarrow> replace_nan s = s"
  by (induction s rule: replace_nan.induct) auto

lemma split_py_nonempty: "split_py c s \<noteq> []"
  by (induction s) (auto split: list.splits)

lemma split_py_append:
  "split_py c (a @ c # b) = split_py c a @ split_py c b"
proof (induction a)
  case Nil
  show ?case by simp
next
  case (Cons x a)
  obtain w ws where w: "split_py c a = w # ws"
    using split_py_nonempty [of c a] by (cases "split_py c a") auto
  with Cons show ?case by simp
qed

lemma tokens_append:
  assumes "a = [] \<or> last a = CHR '';''"
  shows "set (cell_tokens (StrV (a @ b))) = set (cell_tokens (StrV a)) \<union> set (cell_tokens (StrV b))"
proof (cases "a = []")
  case True
  then show ?thesis by auto
next
  case False
  with assms have "last a = CHR '';''" by simp
  with False have a: "a = butlast a @ [CHR '';'']" by (metis append_butlast_last_id)
  have "split_py CHR '';'' a = split_py CHR '';'' (butlast a) @ [[]]"
    using split_py_append [of "CHR '';''" "butlast a" "[]"] a by simp
  moreover have "split_py CHR '';'' (a @ b) = split_py CHR '';'' (butlast a) @ split_py CHR '';'' b"
    using split_py_append [of "CHR '';''" "butlast a" b] a by (metis append.assoc append_Cons append_Nil)
  ultimately show ?thesis by auto
qed

lemma merge_delimited_sets_codes:
  "\<exists>codes. distinct codes
      \<and> set codes = {t \<in> set (split_py CHR '';'' (replace_nan s)). t \<noteq> []}
      \<and> merge_delimited_sets s =
          (if codes = [] then NaN else StrV (concat (map (\<lambda>c. c @ '';'') codes)))"
proof -
  let ?codes = "sort (collect_codes [] (split_py CHR '';'' (replace_nan s)))"
  have d: "distinct ?codes" by (simp add: collect_codes_distinct)
  have s: "set ?codes = {t \<in> set (split_py CHR '';'' (replace_nan s)). t \<noteq> []}"
    by (simp add: collect_codes_set)
  have e: "(?codes = []) = (collect_codes [] (split_py CHR '';'' (replace_nan s)) = [])"
    by (metis length_sort length_0_conv)
  have m: "merge_delimited_sets s =
          (if ?codes = [] then NaN else StrV (concat (map (\<lambda>c. c @ '';'') ?codes)))"
    unfolding merge_delimited_sets_def Let_def e [symmetric]
    using join_py_trailing [of ?codes] by simp
  from d s m show ?thesis by blast
qed


lemma add_series_strs:
  "add_series (map StrV as) (map StrV bs) = Inr (map (\<lambda>(a, b). StrV (a @ b)) (zip as bs))"
proof (induction as arbitrary: bs)
  case Nil
  show ?case by simp
next
  case (Cons a as)
  then show ?case by (cases bs) simp_all
qed

lemma join_append_strs:
  "join_delimited_set_series (map StrV as) (map StrV bs) True
     = Inr (map (\<lambda>(a, b). blank_to_nan (StrV (a @ b))) (zip as bs))"
  by (simp add: join_delimited_set_series_def add_series_strs case_prod_unfold)

lemma join_overwrite:
  "join_delimited_set_series ds1 ds2 False
     = Inr (map (\<lambda>(x, y). blank_to_nan (if y \<noteq> NaN then y else x)) (zip ds1 ds2))"
  by (simp add: join_delimited_set_series_def case_prod_unfold)

lemma merge_set_cells_union:
  assumes "a = [] \<or> last a = CHR '';''" and "CHR ''n'' \<notin> set a" and "CHR ''n'' \<notin> set b"
  shows "\<exists>codes. distinct codes
           \<and> set codes = set (cell_tokens (StrV a)) \<union> set (cell_tokens (StrV b))
           \<and> merge_set_cells (StrV a) (StrV b) =
               (if codes = [] then NaN else StrV (concat (map (\<lambda>c. c @ '';'') codes)))"
proof -
  from assms have id: "replace_nan (a @ b) = a @ b" by (simp add: replace_nan_id)
  have tok: "set (cell_tokens (StrV (a @ b))) = set (cell_tokens (StrV a)) \<union> set (cell_tokens (StrV b))"
    using assms(1) by (rule tokens_append)
  from merge_delimited_sets_codes [of "a @ b"] obtain codes where
    c: "distinct codes" "set codes = {t \<in> set (split_py CHR '';'' (replace_nan (a @ b))). t \<noteq> []}"
       "merge_delimited_sets (a @ b) =
          (if codes = [] then NaN else StrV (concat (map (\<lambda>c. c @ '';'') codes)))"
    by blast
  have s: "set codes = set (cell_tokens (StrV a)) \<union> set (cell_tokens (StrV b))"
  proof -
    from c(2) have "set codes = {t \<in> set (split_py CHR '';'' (a @ b)). t \<noteq> []}"
      unfolding id .
    also have "\<dots> = set (cell_tokens (StrV (a @ b)))" by simp
    also note tok
    finally show ?thesis .
  qed
  have m: "merge_set_cells (StrV a) (StrV b) = merge_delimited_sets (a @ b)"
    by (simp add: merge_set_cells_def)
  show ?thesis
  proof (intro exI conjI)
    show "distinct codes" by (rule c(1))
    show "set codes = set (cell_tokens (StrV a)) \<union> set (cell_tokens (StrV b))" by (rule s)
    show "merge_set_cells (StrV a) (StrV b) =
               (if codes = [] then NaN else StrV (concat (map (\<lambda>c. c @ '';'') codes)))"
      unfolding m by (rule c(3))
  qed
qed

text \<open>
  Claim C5 (the code departs from it).  A left and a right dataset of one row each, with the
  key \<open>id\<close> and the delimited set \<open>q\<close>, merged by \<open>hmerge\<close> with \<open>merge_existing = 'all'\<close>.
  For the rows \<open>1;2;\<close> and \<open>2;3;\<close> the merged row is \<open>1;2;3;\<close>, as claimed.  For the rows
  \<open>9;\<close> and \<open>10;\<close> it is \<open>10;9;\<close>: \<open>_merge_delimited_sets\<close> sorts the codes as strings, so
  they are de-duplicated but not in ascending order.  The other path, a recode in append
  mode through \<open>join_delimited_set_series\<close>, sorts the codes as numbers: a row seeded
  with \<open>10;\<close> to which the code 9 is appended becomes \<open>9;10;\<close>.
\<close>

theorem hmerge_sorts_codes_as_strings:
  "hmerge (\<lambda>m c. c)
     (meta_id_q, \<lparr>columns = [''id'', ''q''], index = [0], rows = [[IntV 1, StrV ''9;'']]\<rparr>)
     [(meta_id_q, \<lparr>columns = [''id'', ''q''], index = [0], rows = [[IntV 1, StrV ''10;'']]\<rparr>)]
     (Some ''id'') None None False None MergeAll
   = Inr (meta_id_q,
          \<lparr>columns = [''id'', ''q''], index = [0], rows = [[IntV 1, StrV ''10;9;'']]\<rparr>, [])
   \<and> hmerge (\<lambda>m c. c)
     (meta_id_q, \<lparr>columns = [''id'', ''q''], index = [0], rows = [[IntV 1, StrV ''1;2;'']]\<rparr>)
     [(meta_id_q, \<lparr>columns = [''id'', ''q''], index = [0], rows = [[IntV 1, StrV ''2;3;'']]\<rparr>)]
     (Some ''id'') None None False None MergeAll
   = Inr (meta_id_q,
          \<lparr>columns = [''id'', ''q''], index = [0], rows = [[IntV 1, StrV ''1;2;3;'']]\<rparr>, [])
   \<and> recode_from_index_mapper meta_id_q ''q'' [0] [StrV ''10;''] [(9, [0])] True
   = Inr ([StrV ''9;10;''], [])"
  unfolding meta_id_q_def plain_column_def by code_simp

theorem hmerge_sorts_codes_as_strings_witness:
  "\<exists>m d ws. hmerge (\<lambda>m c. c)
       (meta_id_q, \<lparr>columns = [''id'', ''q''], index = [0], rows = [[IntV 1, StrV ''9;'']]\<rparr>)
       [(meta_id_q, \<lparr>columns = [''id'', ''q''], index = [0], rows = [[IntV 1, StrV ''10;'']]\<rparr>)]
       (Some ''id'') None None False None MergeAll = Inr (m, d, ws)
     \<and> rows d = [[IntV 1, StrV ''10;9;'']]"
  using hmerge_sorts_codes_as_strings by simp

subsection \<open>Recoding a delimited set\<close>

text \<open>
  Claim C1 (the code departs from it).  The target \<open>q\<close> is a delimited set holding
  \<open>1;\<close> in its only row; the index map sends the code 2 to no row; append mode.  The
  condensed recode is missing, the append-mode sum of \<open>1;\<close> and a missing value is
  missing, and the function warns and returns that all-missing series: the \<open>1;\<close> that
  the seeded series held is gone.
\<close>

theorem recode_append_drops_seeded_data:
  "recode_from_index_mapper
     \<lparr>m_columns = [(''q'', \<lparr>col_name = ''q'', col_type = ''delimited set'', col_text = [],
                            col_values = None, col_properties = None\<rparr>)],
      m_masks = [], m_sets = [], m_lib_values = []\<rparr>
     ''q'' [0] [StrV ''1;''] [(2, [])] True
   = Inr ([NaN], [''Could not recode q, found empty data column dependency!''])"
  by code_simp

subsection \<open>The index mapper\<close>

lemma check_mapper_fails:
  assumes "(key, val) \<in> set mapper" and "\<not> is_dict val" and "\<not> is_tuple val"
  shows "\<exists>k v. (k, v) \<in> set mapper \<and> \<not> is_dict v \<and> \<not> is_tuple v
           \<and> check_mapper mapper = Inl (TypeError (default_missing_message k))"
  using assms(1)
proof (induction mapper)
  case Nil
  then show ?case by simp
next
  case (Cons kv mapper)
  obtain k v where kv: "kv = (k, v)" by (cases kv)
  show ?case
  proof (cases "is_dict v \<or> is_tuple v")
    case True
    with Cons.prems kv assms(2,3) have "(key, val) \<in> set mapper" by auto
    from Cons.IH [OF this] obtain k' v' where
      "(k', v') \<in> set mapper" "\<not> is_dict v'" "\<not> is_tuple v'"
      "check_mapper mapper = Inl (TypeError (default_missing_message k'))" by blast
    with True kv show ?thesis by auto
  next
    case False
    with kv show ?thesis by auto
  qed
qed

lemma resolve_all_entry:
  assumes "resolve_all g xs = Inr r" and "(k, l) \<in> set xs"
  shows "\<exists>ix. g l = Inr ix \<and> (k, ix) \<in> set r"
  using assms
proof (induction xs arbitrary: r)
  case Nil
  then show ?case by simp
next
  case (Cons x xs)
  obtain k' l' where x: "x = (k', l')" by (cases x)
  from Cons.prems(1) x obtain ix' r' where
    g: "g l' = Inr ix'" and r': "resolve_all g xs = Inr r'" and r: "r = (k', ix') # r'"
    by (auto split: sum.splits)
  show ?case
  proof (cases "(k, l) = (k', l')")
    case True
    with g r show ?thesis by auto
  next
    case False
    with Cons.prems(2) x have "(k, l) \<in> set xs" by auto
    from Cons.IH [OF r' this] r show ?thesis by auto
  qed
qed

lemma resolve_all_returns:
  assumes "\<forall>(k, l) \<in> set xs. \<exists>ix. g l = Inr ix"
  shows "\<exists>r. resolve_all g xs = Inr r"
  using assms
proof (induction xs)
  case Nil
  show ?case by simp
next
  case (Cons x xs)
  obtain k l where x: "x = (k, l)" by (cases x)
  with Cons.prems obtain ix where "g l = Inr ix" by auto
  moreover from Cons obtain r where "resolve_all g xs = Inr r" by auto
  ultimately show ?case using x by simp
qed

text \<open>
  Claim C6.  With \<open>default=None\<close>, a mapper holding a value that is neither a dict nor a
  tuple (a bare list is one) makes \<open>index_mapper\<close> fail with the \<open>TypeError\<close> that
  reports the missing default, the exception by which the code reports this configuration
  error; the result does not depend on the logic evaluator \<open>get_logic_index\<close>, which is
  never reached.  With a default column \<open>d\<close>, the index returned for a bare list
  \<open>cs\<close> is the index of the logic \<open>{d: has_any(cs)}\<close>, and the call returns whenever
  the evaluator resolves every keyed entry.
\<close>

theorem index_mapper_default:
  "((key, val) \<in> set mapper \<and> \<not> is_dict val \<and> \<not> is_tuple val \<longrightarrow>
      (\<exists>k v. (k, v) \<in> set mapper \<and> \<not> is_dict v \<and> \<not> is_tuple v
         \<and> index_mapper get_logic_index mapper None intersect
             = Inl (TypeError (default_missing_message k))))
   \<and> (index_mapper get_logic_index mapper (Some d) None = Inr r \<and> (key, Codes cs) \<in> set mapper \<longrightarrow>
      (\<exists>ix. get_logic_index (Dict [(Some d, has_any cs)]) = Inr ix \<and> (key, ix) \<in> set r))
   \<and> ((\<forall>(k, v) \<in> set mapper. \<exists>ix. get_logic_index (key_by_default d v) = Inr ix) \<longrightarrow>
      (\<exists>r. index_mapper get_logic_index mapper (Some d) None = Inr r))"
proof (intro conjI impI)
  assume "(key, val) \<in> set mapper \<and> \<not> is_dict val \<and> \<not> is_tuple val"
  then have "\<exists>k v. (k, v) \<in> set mapper \<and> \<not> is_dict v \<and> \<not> is_tuple v
           \<and> check_mapper mapper = Inl (TypeError (default_missing_message k))"
    using check_mapper_fails by blast
  then obtain k v where "(k, v) \<in> set mapper" "\<not> is_dict v" "\<not> is_tuple v"
    and c: "check_mapper mapper = Inl (TypeError (default_missing_message k))" by blast
  moreover from c have "index_mapper get_logic_index mapper None intersect
             = Inl (TypeError (default_missing_message k))"
    by (simp add: index_mapper_def)
  ultimately show "\<exists>k v. (k, v) \<in> set mapper \<and> \<not> is_dict v \<and> \<not> is_tuple v
         \<and> index_mapper get_logic_index mapper None intersect
             = Inl (TypeError (default_missing_message k))" by blast
next
  assume a: "index_mapper get_logic_index mapper (Some d) None = Inr r \<and> (key, Codes cs) \<in> set mapper"
  then have res: "resolve_all get_logic_index (map (\<lambda>(key, val). (key, key_by_default d val)) mapper) = Inr r"
    by (simp add: index_mapper_def)
  from a have "(key, key_by_default d (Codes cs)) \<in> set (map (\<lambda>(key, val). (key, key_by_default d val)) mapper)"
    by force
  from resolve_all_entry [OF res this]
  show "\<exists>ix. get_logic_index (Dict [(Some d, has_any cs)]) = Inr ix \<and> (key, ix) \<in> set r"
    by simp
next
  assume "\<forall>(k, v) \<in> set mapper. \<exists>ix. get_logic_index (key_by_default d v) = Inr ix"
  then have "\<forall>(k, l) \<in> set (map (\<lambda>(key, val). (key, key_by_default d val)) mapper).
               \<exists>ix. get_logic_index l = Inr ix"
    by auto
  from resolve_all_returns [OF this]
  show "\<exists>r. index_mapper get_logic_index mapper (Some d) None = Inr r"
    by (simp add: index_mapper_def)
qed

theorem index_mapper_default_witness:
  "index_mapper (\<lambda>l. Inl (KeyError ''never reached'')) [(1, Dict []), (2, Codes [1, 2])] None None
     = Inl (TypeError (default_missing_message 2))
   \<and> index_mapper (\<lambda>l. if l = Dict [(Some ''q'', HasAny [1, 2])] then Inr [0, 3] else Inr [])
        [(5, Codes [1, 2])] (Some ''q'') None = Inr [(5, [0, 3])]"
proof -
  let ?g = "\<lambda>l. if l = Dict [(Some ''q'', HasAny [1, 2])] then Inr [0, 3::nat] else (Inr [] :: error + nat list)"
  let ?M = "[(1, Dict []), (2, Codes [1, 2])] :: (int \<times> logic) list"
  let ?e = "\<lambda>l :: logic. (Inl (KeyError ''never reached'') :: error + nat list)"
  have "\<exists>k v. (k, v) \<in> set ?M \<and> \<not> is_dict v \<and> \<not> is_tuple v
         \<and> index_mapper ?e ?M None None = Inl (TypeError (default_missing_message k))"
    using index_mapper_default [where key = 2 and val = "Codes [1, 2]" and mapper = ?M
        and get_logic_index = ?e and intersect = None, THEN conjunct1]
    by simp
  then obtain k v where kv: "(k, v) \<in> set ?M" "\<not> is_dict v" "\<not> is_tuple v"
    and e: "index_mapper ?e ?M None None = Inl (TypeError (default_missing_message k))"
    by blast
  from kv have "k = 2" by auto
  with e have a: "index_mapper ?e ?M None None = Inl (TypeError (default_missing_message 2))"
    by simp
  have b: "index_mapper ?g [(5, Codes [1, 2])] (Some ''q'') None = Inr [(5, [0, 3])]"
    by (simp add: index_mapper_def has_any_def)
  from a b show ?thesis by simp
qed

subsection \<open>Facts about the metadata merge\<close>

lemma bind_err_Inr: "(bind_err x f = Inr y) = (\<exists>v. x = Inr v \<and> f v = Inr y)"
  by (cases x) auto

lemma dict_set_keys: "fst ` set (dict_set d k v) = insert k (fst ` set d)"
  by (auto simp: dict_set_def image_iff split: if_splits) force+

lemma map_of_None_keys: "(map_of d k = None) = (k \<notin> fst ` set d)"
  by (simp add: map_of_eq_None_iff)

lemma uniquify_list_distinct: "distinct (uniquify_list xs)"
  by (simp add: uniquify_list_def)

lemma update_mask_meta_columns:
  "update_mask_meta l r nm ow = Inr m \<Longrightarrow> m_columns m = m_columns l"
  by (auto simp: update_mask_meta_def bind_err_Inr Let_def split: option.splits)

lemma merge_masks_columns:
  "merge_masks l r masks ow = Inr m \<Longrightarrow> m_columns m = m_columns l"
proof (induction masks arbitrary: l)
  case Nil
  then show ?case by simp
next
  case (Cons a masks)
  show ?case
  proof (cases "a \<notin> fst ` set (m_masks l)")
    case True
    with Cons.prems obtain mk where
      "merge_masks (l\<lparr>m_masks := dict_set (m_masks l) a mk\<rparr>) r masks ow = Inr m"
      by (auto split: option.splits)
    from Cons.IH [OF this] show ?thesis by simp
  next
    case False
    with Cons.prems obtain l2 where u: "update_mask_meta l r a ow = Inr l2"
      and m: "merge_masks l2 r masks ow = Inr m"
      by (auto simp: bind_err_Inr)
    from Cons.IH [OF m] update_mask_meta_columns [OF u] show ?thesis by simp
  qed
qed

lemma merge_sets_columns: "m_columns (merge_sets l r) = m_columns l"
  by (simp add: merge_sets_def Let_def)

lemma merge_lib_values_columns: "m_columns (merge_lib_values l r) = m_columns l"
  by (simp add: merge_lib_values_def)

lemma merge_columns_updates:
  assumes "merge_columns e r ow mi cols (m0, cu0, w0) = Inr (m, cu, w)" and "distinct cols"
  shows "cu = cu0 @ filter (\<lambda>c. c \<in> fst ` set (m_columns m0)) cols"
  using assms
proof (induction cols arbitrary: m0 cu0 w0)
  case Nil
  then show ?case by simp
next
  case (Cons c cols)
  from Cons.prems(2) have nc: "c \<notin> set cols" and d: "distinct cols" by simp_all
  from Cons.prems(1) obtain rc where rc: "map_of (m_columns r) c = Some rc"
    by (auto split: option.splits)
  show ?case
  proof (cases "map_of (m_columns m0) c")
    case None
    then have notin: "c \<notin> fst ` set (m_columns m0)" by (simp add: map_of_None_keys)
    from Cons.prems(1) rc None obtain c2 where
      rest: "merge_columns e r ow mi cols (m0\<lparr>m_columns := dict_set (m_columns m0) c c2\<rparr>, cu0, w0)
               = Inr (m, cu, w)"
      by (auto simp: Let_def)
    have "filter (\<lambda>x. x \<in> fst ` set (dict_set (m_columns m0) c c2)) cols
            = filter (\<lambda>x. x \<in> fst ` set (m_columns m0)) cols"
      using nc by (intro filter_cong) (auto simp: dict_set_keys)
    with Cons.IH [OF rest d] notin show ?thesis by simp
  next
    case (Some lc)
    then have isin: "c \<in> fst ` set (m_columns m0)"
      using map_of_None_keys [of "m_columns m0" c] by auto
    from Cons.prems(1) rc Some obtain c2 ws where
      rest: "merge_columns e r ow mi cols (m0\<lparr>m_columns := dict_set (m_columns m0) c c2\<rparr>,
               cu0 @ [c], w0 @ ws) = Inr (m, cu, w)"
      by (auto simp: Let_def bind_err_Inr)
    have "filter (\<lambda>x. x \<in> fst ` set (dict_set (m_columns m0) c c2)) cols
            = filter (\<lambda>x. x \<in> fst ` set (m_columns m0)) cols"
      using nc by (intro filter_cong) (auto simp: dict_set_keys)
    with Cons.IH [OF rest d] isin show ?thesis by simp
  qed
qed

lemma merge_meta_cols:
  assumes "merge_meta e l r fs ow = Inr (m, cols, cu, ws)"
  shows "distinct cols \<and> cu = filter (\<lambda>c. c \<in> fst ` set (m_columns l)) cols"
proof -
  let ?fs = "case fs of None \<Rightarrow> ''data file'' | Some s \<Rightarrow> s"
  from assms obtain items where items: "map_of (m_sets r) ?fs = Some items"
    by (auto simp: merge_meta_def Let_def split: option.splits)
  from assms items obtain cols0 masks mi l1 m3 where
    sc: "set_columns r items ([], [], []) = Inr (cols0, masks, mi)"
    and cols: "cols = uniquify_list cols0"
    and mm: "merge_masks l r masks ow = Inr l1"
    and mc: "merge_columns e r ow mi cols (merge_lib_values (merge_sets l1 r) r, [], [])
               = Inr (m3, cu, ws)"
    by (auto simp: merge_meta_def Let_def bind_err_Inr split: option.splits)
  have d: "distinct cols" by (simp add: cols uniquify_list_distinct)
  have "m_columns (merge_lib_values (merge_sets l1 r) r) = m_columns l"
    by (simp add: merge_lib_values_columns merge_sets_columns merge_masks_columns [OF mm])
  with merge_columns_updates [OF mc d] d show ?thesis by simp
qed

subsection \<open>Facts about frames and the left join\<close>

lemma first_missing_None: "(first_missing present cs = None) = (set cs \<subseteq> set present)"
  by (induction cs) auto

lemma cell_at_map: "c \<in> set cols \<Longrightarrow> cell_at cols (map f cols) c = f c"
proof (induction cols)
  case Nil
  then show ?case by simp
next
  case (Cons a cols)
  then show ?case by (cases "a = c") (auto simp: cell_at_def)
qed

lemma select_columns_Inr:
  assumes "select_columns df cols = Inr rp"
  shows "columns rp = cols"
    and "rows rp = map (\<lambda>r. map (cell_at (columns df) r) cols) (rows df)"
    and "set cols \<subseteq> set (columns df)"
  using assms
  by (auto simp: select_columns_def first_missing_None split: option.splits)

lemma filter_rows_simps:
  "columns (filter_rows df keep) = columns df"
  "rows (filter_rows df keep) = filter keep (rows df)"
  by (simp_all add: filter_rows_def)

lemma update_known_shape:
  assumes "update_known m dl dr l r upd cu mex = Inr dl2"
  shows "columns dl2 = columns dl"
    and "length (rows dl2) = min (length (index dl)) (length (rows dl))"
    and "set cu \<subseteq> set (remove1 l (columns dl))"
proof -
  from assms have fm: "first_missing (remove1 l (columns dl)) cu = None"
    by (auto simp: update_known_def split: option.splits)
  then show "set cu \<subseteq> set (remove1 l (columns dl))" by (simp add: first_missing_None)
  from assms fm obtain rws where
    dl2: "dl2 = dl\<lparr>rows := map rws (zip (index dl) (rows dl))\<rparr>"
    by (auto simp: update_known_def Let_def split: option.splits if_splits)
  then show "columns dl2 = columns dl" by simp
  from dl2 show "length (rows dl2) = min (length (index dl)) (length (rows dl))" by simp
qed

lemma length_concat_ge:
  "(\<And>x. x \<in> set xs \<Longrightarrow> 1 \<le> length (f x)) \<Longrightarrow> length xs \<le> length (concat (map f xs))"
proof (induction xs)
  case Nil
  show ?case by simp
next
  case (Cons a xs)
  from Cons.prems [of a] have "1 \<le> length (f a)" by simp
  moreover from Cons have "length xs \<le> length (concat (map f xs))" by simp
  ultimately show ?case by simp
qed

lemma length_concat_eq:
  "(\<And>x. x \<in> set xs \<Longrightarrow> length (f x) = 1) \<Longrightarrow> length (concat (map f xs)) = length xs"
  by (induction xs) simp_all

definition join_matches :: "frame \<Rightarrow> frame \<Rightarrow> string \<Rightarrow> string \<Rightarrow> cell list \<Rightarrow> cell list list" where
  "join_matches left right left_on right_on x =
     filter (\<lambda>y. cell_equal (cell_at (columns right) y right_on) (cell_at (columns left) x left_on))
            (rows right)"

lemma left_join_rows:
  "rows (left_join left right l r) =
     concat (map (\<lambda>x. if join_matches left right l r x = []
                       then [x @ map (\<lambda>c. NaN) (if l = r then filter (\<lambda>c. c \<noteq> r) (columns right)
                                                  else columns right)]
                       else map (\<lambda>y. x @ map (cell_at (columns right) y)
                                           (if l = r then filter (\<lambda>c. c \<noteq> r) (columns right)
                                            else columns right))
                                (join_matches left right l r x))
                 (rows left))"
  unfolding left_join_def Let_def join_matches_def by (cases "l = r") simp_all

lemma left_join_rows_ge: "length (rows left) \<le> length (rows (left_join left right l r))"
  unfolding left_join_rows
  by (rule length_concat_ge) (auto simp: Suc_le_eq)

lemma left_join_rows_eq:
  assumes "\<And>x. x \<in> set (rows left) \<Longrightarrow> length (join_matches left right l r x) \<le> 1"
  shows "length (rows (left_join left right l r)) = length (rows left)"
  unfolding left_join_rows
proof (rule length_concat_eq)
  fix x assume "x \<in> set (rows left)"
  from assms [OF this] have "join_matches left right l r x = [] \<or> length (join_matches left right l r x) = 1"
    by (cases "join_matches left right l r x") auto
  then show "length (if join_matches left right l r x = []
                       then [x @ map (\<lambda>c. NaN) (if l = r then filter (\<lambda>c. c \<noteq> r) (columns right)
                                                  else columns right)]
                       else map (\<lambda>y. x @ map (cell_at (columns right) y)
                                           (if l = r then filter (\<lambda>c. c \<noteq> r) (columns right)
                                            else columns right))
                                (join_matches left right l r x)) = 1"
    by auto
qed

lemma left_join_columns:
  "columns (left_join left right l r) =
     (let right_cols = (if l = r then filter (\<lambda>c. c \<noteq> r) (columns right) else columns right)
      in map (\<lambda>c. if c \<in> set (columns left) \<and> c \<in> set right_cols then c @ ''_x'' else c) (columns left)
         @ map (\<lambda>c. if c \<in> set (columns left) \<and> c \<in> set right_cols then c @ ''_y'' else c) right_cols)"
  by (simp add: left_join_def Let_def)

lemma cell_equal_trans: "cell_equal a k \<Longrightarrow> cell_equal b k \<Longrightarrow> cell_equal a b"
  by (cases a; cases k; cases b) simp_all

lemma keys_distinct_matches:
  "keys_distinct ks \<Longrightarrow> length (filter (\<lambda>y. cell_equal y k) ks) \<le> 1"
proof (induction ks)
  case Nil
  show ?case by simp
next
  case (Cons a ks)
  then have ni: "\<not> isin a ks" and kd: "keys_distinct ks" by simp_all
  show ?case
  proof (cases "cell_equal a k")
    case True
    have "filter (\<lambda>y. cell_equal y k) ks = []"
    proof (rule ccontr)
      assume "filter (\<lambda>y. cell_equal y k) ks \<noteq> []"
      then obtain b where b: "b \<in> set ks" "cell_equal b k"
        by (metis filter_False)
      from cell_equal_trans [OF True b(2)] b(1) have "isin a ks"
        by (auto simp: isin_def list_ex_iff)
      with ni show False by simp
    qed
    with True show ?thesis by simp
  next
    case False
    with Cons.IH [OF kd] show ?thesis by simp
  qed
qed

lemma drop_column_shape:
  assumes "drop_column df c = Inr d"
  shows "columns d = filter (\<lambda>c'. c' \<noteq> c) (columns df)" and "length (rows d) = length (rows df)"
  using assms by (auto simp: drop_column_def split: if_splits)

subsection \<open>The shape of a horizontal merge\<close>

lemma get_column_Inr:
  "get_column df c = Inr vs \<Longrightarrow> c \<in> set (columns df) \<and> vs = map (\<lambda>r. cell_at (columns df) r c) (rows df)"
  by (auto simp: get_column_def split: if_splits)

lemma known_updates_Inr:
  "known_updates kl kr cu0 = Inr cu \<Longrightarrow>
     (if kl = kr then kl \<in> set cu0 \<and> cu = remove1 kl cu0 else cu = cu0)"
  by (auto simp: known_updates_def split: if_splits)

lemma append_new_Inr:
  assumes "append_new dl2 dr2 kl kr cols cu = Inr d"
  obtains rp where
    "select_columns dr2
       (filter (\<lambda>c. c \<notin> set cu) cols @ (if kl \<noteq> kr \<and> kr \<in> set cu then [kr] else [])) = Inr rp"
    and "kr \<in> set (filter (\<lambda>c. c \<notin> set cu) cols @ (if kl \<noteq> kr \<and> kr \<in> set cu then [kr] else []))"
    and "if kl \<noteq> kr \<and> kr \<in> set cu
         then drop_column ((left_join dl2 rp kl kr)\<lparr>columns :=
                 map (\<lambda>c. if c = kr @ ''_x'' then kr else c) (columns (left_join dl2 rp kl kr))\<rparr>)
                (kr @ ''_y'') = Inr d
         else d = left_join dl2 rp kl kr"
proof -
  let ?new = "filter (\<lambda>c. c \<notin> set cu) cols @ (if kl \<noteq> kr \<and> kr \<in> set cu then [kr] else [])"
  from assms obtain rp where sel: "select_columns dr2 ?new = Inr rp"
    and rest: "(if kr \<notin> set ?new then Inl (KeyError kr)
                else if kl \<noteq> kr \<and> kr \<in> set cu
                     then drop_column ((left_join dl2 rp kl kr)\<lparr>columns :=
                            map (\<lambda>c. if c = kr @ ''_x'' then kr else c)
                                (columns (left_join dl2 rp kl kr))\<rparr>) (kr @ ''_y'')
                     else Inr (left_join dl2 rp kl kr)) = Inr d"
    unfolding append_new_def Let_def bind_err_Inr by blast
  from rest have krin: "kr \<in> set ?new" by (cases "kr \<in> set ?new") simp_all
  with rest have fin: "if kl \<noteq> kr \<and> kr \<in> set cu
         then drop_column ((left_join dl2 rp kl kr)\<lparr>columns :=
                 map (\<lambda>c. if c = kr @ ''_x'' then kr else c) (columns (left_join dl2 rp kl kr))\<rparr>)
                (kr @ ''_y'') = Inr d
         else d = left_join dl2 rp kl kr"
    by (cases "kl \<noteq> kr \<and> kr \<in> set cu") simp_all
  from sel krin fin show ?thesis by (rule that)
qed

lemma hmerge_right_parts:
  assumes "hmerge_right e kl kr ow fs mex (ml, dl, w0) (mr, dr) = Inr (m, d, ws)"
  obtains m2 cols cu0 ws2 cu dl2 keep where
    "kl \<in> set (columns dl)" and "kr \<in> set (columns dr)"
    and "merge_meta e ml mr fs ow = Inr (m2, cols, cu0, ws2)"
    and "known_updates kl kr cu0 = Inr cu"
    and "if cu \<noteq> [] then update_known m2 dl (filter_rows dr keep) kl kr (kl \<noteq> kr \<and> kr \<in> set cu) cu mex
                           = Inr dl2
         else dl2 = dl"
    and "append_new dl2 (filter_rows dr keep) kl kr cols cu = Inr d"
proof -
  from assms obtain rk where rk: "get_column dr kr = Inr rk"
    and r1: "bind_err (get_column dl kl) (\<lambda>left_keys.
        let data_right = filter_rows dr (\<lambda>r. isin (cell_at (columns dr) r kr) left_keys)
        in bind_err (merge_meta e ml mr fs ow)
             (\<lambda>(meta_left2, cols, col_updates0, ws).
                bind_err (known_updates kl kr col_updates0) (\<lambda>col_updates.
                  bind_err (if col_updates \<noteq> []
                            then update_known meta_left2 dl data_right kl kr
                                   (kl \<noteq> kr \<and> kr \<in> set col_updates) col_updates mex
                            else Inr dl)
                    (\<lambda>data_left2.
                       bind_err (append_new data_left2 data_right kl kr cols col_updates)
                         (\<lambda>data_left3. Inr (meta_left2, data_left3, w0 @ ws)))))) = Inr (m, d, ws)"
    unfolding hmerge_right_def prod.case bind_err_Inr [of "get_column dr kr"] by blast
  let ?keep = "\<lambda>lk r. isin (cell_at (columns dr) r kr) lk"
  from r1 obtain lk where lk: "get_column dl kl = Inr lk"
    and r2: "bind_err (merge_meta e ml mr fs ow)
             (\<lambda>(meta_left2, cols, col_updates0, ws).
                bind_err (known_updates kl kr col_updates0) (\<lambda>col_updates.
                  bind_err (if col_updates \<noteq> []
                            then update_known meta_left2 dl (filter_rows dr (?keep lk)) kl kr
                                   (kl \<noteq> kr \<and> kr \<in> set col_updates) col_updates mex
                            else Inr dl)
                    (\<lambda>data_left2.
                       bind_err (append_new data_left2 (filter_rows dr (?keep lk)) kl kr cols col_updates)
                         (\<lambda>data_left3. Inr (meta_left2, data_left3, w0 @ ws))))) = Inr (m, d, ws)"
    unfolding bind_err_Inr [of "get_column dl kl"] Let_def by blast
  from r2 obtain res where mm0: "merge_meta e ml mr fs ow = Inr res"
    and r3: "(case res of (meta_left2, cols, col_updates0, ws) \<Rightarrow>
                bind_err (known_updates kl kr col_updates0) (\<lambda>col_updates.
                  bind_err (if col_updates \<noteq> []
                            then update_known meta_left2 dl (filter_rows dr (?keep lk)) kl kr
                                   (kl \<noteq> kr \<and> kr \<in> set col_updates) col_updates mex
                            else Inr dl)
                    (\<lambda>data_left2.
                       bind_err (append_new data_left2 (filter_rows dr (?keep lk)) kl kr cols col_updates)
                         (\<lambda>data_left3. Inr (meta_left2, data_left3, w0 @ ws))))) = Inr (m, d, ws)"
    unfolding bind_err_Inr [of "merge_meta e ml mr fs ow"] by blast
  obtain m2 cols cu0 ws2 where res: "res = (m2, cols, cu0, ws2)" by (cases res)
  from r3 obtain cu where cu: "known_updates kl kr cu0 = Inr cu"
    and r4: "bind_err (if cu \<noteq> []
                            then update_known m2 dl (filter_rows dr (?keep lk)) kl kr
                                   (kl \<noteq> kr \<and> kr \<in> set cu) cu mex
                            else Inr dl)
                    (\<lambda>data_left2.
                       bind_err (append_new data_left2 (filter_rows dr (?keep lk)) kl kr cols cu)
                         (\<lambda>data_left3. Inr (m2, data_left3, w0 @ ws2))) = Inr (m, d, ws)"
    unfolding res prod.case bind_err_Inr [of "known_updates kl kr cu0"] by blast
  from r4 obtain dl2 where up: "(if cu \<noteq> []
                            then update_known m2 dl (filter_rows dr (?keep lk)) kl kr
                                   (kl \<noteq> kr \<and> kr \<in> set cu) cu mex
                            else Inr dl) = Inr dl2"
    and r5: "bind_err (append_new dl2 (filter_rows dr (?keep lk)) kl kr cols cu)
                         (\<lambda>data_left3. Inr (m2, data_left3, w0 @ ws2)) = Inr (m, d, ws)"
    by (cases "if cu \<noteq> [] then update_known m2 dl (filter_rows dr (?keep lk)) kl kr
                                   (kl \<noteq> kr \<and> kr \<in> set cu) cu mex else Inr dl") simp_all
  from r5 have an: "append_new dl2 (filter_rows dr (?keep lk)) kl kr cols cu = Inr d"
    by (cases "append_new dl2 (filter_rows dr (?keep lk)) kl kr cols cu") simp_all
  from up have up2: "if cu \<noteq> [] then update_known m2 dl (filter_rows dr (?keep lk)) kl kr
                           (kl \<noteq> kr \<and> kr \<in> set cu) cu mex = Inr dl2
         else dl2 = dl"
    by (cases "cu \<noteq> []") simp_all
  from get_column_Inr [OF lk] have a: "kl \<in> set (columns dl)" by simp
  from get_column_Inr [OF rk] have b: "kr \<in> set (columns dr)" by simp
  from a b mm0 [unfolded res] cu up2 an show ?thesis by (rule that)
qed

lemma append_new_rows_ge:
  assumes "append_new dl2 dr2 kl kr cols cu = Inr d"
  shows "length (rows dl2) \<le> length (rows d)"
proof -
  from assms obtain rp where
    fin: "if kl \<noteq> kr \<and> kr \<in> set cu
         then drop_column ((left_join dl2 rp kl kr)\<lparr>columns :=
                 map (\<lambda>c. if c = kr @ ''_x'' then kr else c) (columns (left_join dl2 rp kl kr))\<rparr>)
                (kr @ ''_y'') = Inr d
         else d = left_join dl2 rp kl kr"
    by (rule append_new_Inr)
  have "length (rows d) = length (rows (left_join dl2 rp kl kr))"
  proof (cases "kl \<noteq> kr \<and> kr \<in> set cu")
    case True
    with fin have "drop_column ((left_join dl2 rp kl kr)\<lparr>columns :=
                 map (\<lambda>c. if c = kr @ ''_x'' then kr else c) (columns (left_join dl2 rp kl kr))\<rparr>)
                (kr @ ''_y'') = Inr d" by simp
    from drop_column_shape(2) [OF this] show ?thesis by simp
  next
    case False
    with fin show ?thesis by simp
  qed
  with left_join_rows_ge [of dl2 rp kl kr] show ?thesis by simp
qed

lemma append_new_rows_eq:
  assumes an: "append_new dl2 dr2 kl kr cols cu = Inr d"
    and one: "\<And>k. length (filter (\<lambda>y. cell_equal (cell_at (columns dr2) y kr) k) (rows dr2)) \<le> 1"
  shows "length (rows d) = length (rows dl2)"
proof -
  let ?new = "filter (\<lambda>c. c \<notin> set cu) cols @ (if kl \<noteq> kr \<and> kr \<in> set cu then [kr] else [])"
  from an obtain rp where
    sel: "select_columns dr2 ?new = Inr rp"
    and krin: "kr \<in> set ?new"
    and fin: "if kl \<noteq> kr \<and> kr \<in> set cu
         then drop_column ((left_join dl2 rp kl kr)\<lparr>columns :=
                 map (\<lambda>c. if c = kr @ ''_x'' then kr else c) (columns (left_join dl2 rp kl kr))\<rparr>)
                (kr @ ''_y'') = Inr d
         else d = left_join dl2 rp kl kr"
    by (rule append_new_Inr)
  have len: "length (rows d) = length (rows (left_join dl2 rp kl kr))"
  proof (cases "kl \<noteq> kr \<and> kr \<in> set cu")
    case True
    with fin have "drop_column ((left_join dl2 rp kl kr)\<lparr>columns :=
                 map (\<lambda>c. if c = kr @ ''_x'' then kr else c) (columns (left_join dl2 rp kl kr))\<rparr>)
                (kr @ ''_y'') = Inr d" by simp
    from drop_column_shape(2) [OF this] show ?thesis by simp
  next
    case False
    with fin show ?thesis by simp
  qed
  have crp: "columns rp = ?new" using sel by (rule select_columns_Inr(1))
  have rrp: "rows rp = map (\<lambda>r. map (cell_at (columns dr2) r) ?new) (rows dr2)"
    using sel by (rule select_columns_Inr(2))
  have key: "\<And>y. cell_at ?new (map (cell_at (columns dr2) y) ?new) kr = cell_at (columns dr2) y kr"
    using krin by (rule cell_at_map)
  have "\<And>x. length (join_matches dl2 rp kl kr x) \<le> 1"
  proof -
    fix x
    have "join_matches dl2 rp kl kr x =
            map (\<lambda>r. map (cell_at (columns dr2) r) ?new)
              (filter (\<lambda>y. cell_equal (cell_at (columns dr2) y kr) (cell_at (columns dl2) x kl)) (rows dr2))"
      unfolding join_matches_def crp rrp filter_map o_def key ..
    then have "length (join_matches dl2 rp kl kr x) =
            length (filter (\<lambda>y. cell_equal (cell_at (columns dr2) y kr) (cell_at (columns dl2) x kl)) (rows dr2))"
      by simp
    with one [of "cell_at (columns dl2) x kl"] show "length (join_matches dl2 rp kl kr x) \<le> 1"
      by simp
  qed
  then have "length (rows (left_join dl2 rp kl kr)) = length (rows dl2)"
    by (intro left_join_rows_eq)
  with len show ?thesis by simp
qed

lemma fresh_suffix: "kr @ ''_y'' \<noteq> kr @ ''_x''" "kr @ ''_x'' \<noteq> kr" "kr @ ''_y'' \<noteq> kr"
  by simp_all

lemma append_new_columns:
  assumes an: "append_new dl2 dr2 kl kr cols cu = Inr d"
    and cu: "\<And>c. c \<in> set cols \<Longrightarrow> (c \<in> set cu) = (c \<in> L \<and> \<not> (kl = kr \<and> c = kl))"
    and cu_sub: "set cu \<subseteq> set cols"
    and decl: "set (columns dl2) \<subseteq> L"
    and kl: "kl \<in> set (columns dl2)"
    and krl: "kl \<noteq> kr \<and> kr \<in> set cu \<Longrightarrow> kr \<in> set (columns dl2)"
    and fresh: "kl \<noteq> kr \<Longrightarrow> \<forall>c \<in> set (columns dl2) \<union> set (columns dr2). c \<noteq> kr @ ''_x'' \<and> c \<noteq> kr @ ''_y''"
  shows "columns d = columns dl2 @ filter (\<lambda>c. c \<notin> L) cols"
    and "kr \<in> set (columns dl2) \<or> kr \<in> set (filter (\<lambda>c. c \<notin> L) cols)"
proof -
  let ?N = "filter (\<lambda>c. c \<notin> L) cols"
  let ?new = "filter (\<lambda>c. c \<notin> set cu) cols @ (if kl \<noteq> kr \<and> kr \<in> set cu then [kr] else [])"
  from an obtain rp where
    sel: "select_columns dr2 ?new = Inr rp"
    and krin: "kr \<in> set ?new"
    and fin: "if kl \<noteq> kr \<and> kr \<in> set cu
         then drop_column ((left_join dl2 rp kl kr)\<lparr>columns :=
                 map (\<lambda>c. if c = kr @ ''_x'' then kr else c) (columns (left_join dl2 rp kl kr))\<rparr>)
                (kr @ ''_y'') = Inr d
         else d = left_join dl2 rp kl kr"
    by (rule append_new_Inr)
  have crp: "columns rp = ?new" using sel by (rule select_columns_Inr(1))
  have sub: "set ?new \<subseteq> set (columns dr2)" using sel by (rule select_columns_Inr(3))
  have klL: "kl \<in> L" using kl decl by blast
  have disj: "\<And>c. c \<in> set (columns dl2) \<Longrightarrow> c \<notin> set ?N" using decl by auto
  have both: "columns d = columns dl2 @ ?N \<and> (kr \<in> set (columns dl2) \<or> kr \<in> set ?N)"
  proof (cases "kl = kr")
    case True
    have "filter (\<lambda>c. c \<noteq> kr) (filter (\<lambda>c. c \<notin> set cu) cols) = ?N"
      unfolding filter_filter
    proof (rule filter_cong [OF refl])
      fix c assume "c \<in> set cols"
      from cu [OF this] True klL show "(c \<notin> set cu \<and> c \<noteq> kr) = (c \<notin> L)" by auto
    qed
    with True crp have rc: "(if kl = kr then filter (\<lambda>c. c \<noteq> kr) (columns rp) else columns rp) = ?N"
      by simp
    have "columns (left_join dl2 rp kl kr) = columns dl2 @ ?N"
      unfolding left_join_columns rc Let_def using disj
      by (auto intro!: map_idI)
    with fin True kl show ?thesis by simp
  next
    case False
    show ?thesis
    proof (cases "kr \<in> set cu")
      case nin: False
      have "filter (\<lambda>c. c \<notin> set cu) cols = ?N"
      proof (rule filter_cong [OF refl])
        fix c assume "c \<in> set cols"
        from cu [OF this] False show "(c \<notin> set cu) = (c \<notin> L)" by auto
      qed
      with False nin crp have rc: "(if kl = kr then filter (\<lambda>c. c \<noteq> kr) (columns rp) else columns rp) = ?N"
        by simp
      have "columns (left_join dl2 rp kl kr) = columns dl2 @ ?N"
        unfolding left_join_columns rc Let_def using disj
        by (auto intro!: map_idI)
      moreover from krin nin False \<open>filter (\<lambda>c. c \<notin> set cu) cols = ?N\<close> have "kr \<in> set ?N" by simp
      ultimately show ?thesis using fin False nin by simp
    next
      case isin: True
      have krd: "kr \<in> set (columns dl2)" using krl False isin by simp
      have "filter (\<lambda>c. c \<notin> set cu) cols = ?N"
      proof (rule filter_cong [OF refl])
        fix c assume "c \<in> set cols"
        from cu [OF this] False show "(c \<notin> set cu) = (c \<notin> L)" by auto
      qed
      with False isin crp have rc: "(if kl = kr then filter (\<lambda>c. c \<noteq> kr) (columns rp) else columns rp) = ?N @ [kr]"
        by simp
      from sub \<open>filter (\<lambda>c. c \<notin> set cu) cols = ?N\<close> have Nsub: "set ?N \<subseteq> set (columns dr2)" by auto
      from fresh [OF False] have f1: "\<And>c. c \<in> set (columns dl2) \<Longrightarrow> c \<noteq> kr @ ''_x'' \<and> c \<noteq> kr @ ''_y''"
        and f2: "\<And>c. c \<in> set ?N \<Longrightarrow> c \<noteq> kr @ ''_x'' \<and> c \<noteq> kr @ ''_y''"
        using Nsub by blast+
      have lj: "columns (left_join dl2 rp kl kr) =
                  map (\<lambda>c. if c = kr then kr @ ''_x'' else c) (columns dl2) @ ?N @ [kr @ ''_y'']"
        unfolding left_join_columns rc Let_def using disj krd
        by (auto intro!: map_idI)
      have ren1: "map (\<lambda>c. if c = kr @ ''_x'' then kr else c)
                    (map (\<lambda>c. if c = kr then kr @ ''_x'' else c) (columns dl2)) = columns dl2"
        using f1 by (auto intro!: map_idI)
      have ren2: "map (\<lambda>c. if c = kr @ ''_x'' then kr else c) ?N = ?N"
        using f2 by (intro map_idI) auto
      have ren: "map (\<lambda>c. if c = kr @ ''_x'' then kr else c) (columns (left_join dl2 rp kl kr))
                   = columns dl2 @ ?N @ [kr @ ''_y'']"
        unfolding lj map_append ren1 ren2 by simp
      from fin False isin have "drop_column ((left_join dl2 rp kl kr)\<lparr>columns :=
                 map (\<lambda>c. if c = kr @ ''_x'' then kr else c) (columns (left_join dl2 rp kl kr))\<rparr>)
                (kr @ ''_y'') = Inr d" by simp
      from drop_column_shape(1) [OF this]
      have "columns d = filter (\<lambda>c'. c' \<noteq> kr @ ''_y'') (columns dl2 @ ?N @ [kr @ ''_y''])"
        by (simp add: ren)
      also have "\<dots> = columns dl2 @ ?N"
      proof -
        have a: "filter (\<lambda>c'. c' \<noteq> kr @ ''_y'') (columns dl2) = columns dl2"
          using f1 by (intro filter_True) blast
        have b: "filter (\<lambda>c'. c' \<noteq> kr @ ''_y'') ?N = ?N"
          using f2 by (intro filter_True) blast
        show ?thesis unfolding filter_append a b by simp
      qed
      finally show ?thesis using krd by simp
    qed
  qed
  from both show "columns d = columns dl2 @ ?N" by simp
  from both show "kr \<in> set (columns dl2) \<or> kr \<in> set ?N" by simp
qed

subsection \<open>Column types in a metadata merge\<close>







lemma merge_columns_step:
  assumes "merge_columns e r ow mi (c # cols) (m0, cu0, w0) = Inr res"
  obtains rc c2 cu1 w1 where
    "map_of (m_columns r) c = Some rc"
    and "merge_columns e r ow mi cols (m0\<lparr>m_columns := dict_set (m_columns m0) c c2\<rparr>, cu1, w0 @ w1)
           = Inr res"
    and "\<forall>lc. map_of (m_columns m0) c = Some lc \<longrightarrow>
           (\<exists>merged. merge_column_metadata (e m0 lc) (e r rc) ow = Inr (merged, w1)
             \<and> col_type c2 = col_type merged \<and> col_name c2 = col_name merged)"
    and "map_of (m_columns m0) c = None \<longrightarrow> w1 = []"
proof -
  from assms obtain rc where rc: "map_of (m_columns r) c = Some rc"
    by (auto split: option.splits)
  show ?thesis
  proof (cases "map_of (m_columns m0) c")
    case None
    with assms rc obtain c2 where
      "merge_columns e r ow mi cols (m0\<lparr>m_columns := dict_set (m_columns m0) c c2\<rparr>, cu0, w0 @ [])
         = Inr res"
      by (auto simp: Let_def)
    with rc None show ?thesis by (intro that [of rc c2 cu0 "[]"]) simp_all
  next
    case (Some lc)
    with assms rc obtain merged w1 where
      mg: "merge_column_metadata (e m0 lc) (e r rc) ow = Inr (merged, w1)"
      by (cases "merge_column_metadata (e m0 lc) (e r rc) ow") (auto simp: Let_def)
    let ?c1 = "merged\<lparr>col_properties := update_properties (col_properties merged)
                 (case col_properties rc of None \<Rightarrow> [] | Some ps \<Rightarrow> ps)\<rparr>"
    let ?c2 = "case map_of mi c of None \<Rightarrow> ?c1 | Some ref \<Rightarrow> ?c1\<lparr>col_values := Some (ValueRef ref)\<rparr>"
    from assms rc Some mg have
      rest: "merge_columns e r ow mi cols (m0\<lparr>m_columns := dict_set (m_columns m0) c ?c2\<rparr>,
               cu0 @ [c], w0 @ w1) = Inr res"
      by (simp add: Let_def)
    have ty: "col_type ?c2 = col_type merged \<and> col_name ?c2 = col_name merged"
      by (simp split: option.splits)
    show ?thesis
    proof (rule that [of rc ?c2 "cu0 @ [c]" w1])
      show "map_of (m_columns r) c = Some rc" by (rule rc)
      show "merge_columns e r ow mi cols (m0\<lparr>m_columns := dict_set (m_columns m0) c ?c2\<rparr>,
               cu0 @ [c], w0 @ w1) = Inr res" by (rule rest)
      show "\<forall>lc'. map_of (m_columns m0) c = Some lc' \<longrightarrow>
             (\<exists>merged. merge_column_metadata (e m0 lc') (e r rc) ow = Inr (merged, w1)
               \<and> col_type ?c2 = col_type merged \<and> col_name ?c2 = col_name merged)"
        using Some mg ty by auto
      show "map_of (m_columns m0) c = None \<longrightarrow> w1 = []" using Some by simp
    qed
  qed
qed




lemma append_data_file_items_columns:
  "append_data_file_items m r fs = Inr m' \<Longrightarrow> m_columns m' = m_columns m"
  by (auto simp: append_data_file_items_def split: option.splits if_splits)



















subsection \<open>Rows and columns of a horizontal merge\<close>

lemma append_new_index:
  assumes "append_new dl2 dr2 kl kr cols cu = Inr d"
  shows "length (index d) = length (rows d)"
proof -
  from assms obtain rp where
    fin: "if kl \<noteq> kr \<and> kr \<in> set cu
         then drop_column ((left_join dl2 rp kl kr)\<lparr>columns :=
                 map (\<lambda>c. if c = kr @ ''_x'' then kr else c) (columns (left_join dl2 rp kl kr))\<rparr>)
                (kr @ ''_y'') = Inr d
         else d = left_join dl2 rp kl kr"
    by (rule append_new_Inr)
  have lj: "length (index (left_join dl2 rp kl kr)) = length (rows (left_join dl2 rp kl kr))"
    by (simp add: left_join_def Let_def)
  show ?thesis
  proof (cases "kl \<noteq> kr \<and> kr \<in> set cu")
    case True
    with fin have dc: "drop_column ((left_join dl2 rp kl kr)\<lparr>columns :=
                 map (\<lambda>c. if c = kr @ ''_x'' then kr else c) (columns (left_join dl2 rp kl kr))\<rparr>)
                (kr @ ''_y'') = Inr d" by simp
    then have "index d = index (left_join dl2 rp kl kr)"
      by (auto simp: drop_column_def split: if_splits)
    with drop_column_shape(2) [OF dc] lj show ?thesis by simp
  next
    case False
    with fin lj show ?thesis by simp
  qed
qed

lemma merge_columns_keys:
  "merge_columns e r ow mi cols (m0, cu0, w0) = Inr (m, cu, w) \<Longrightarrow>
     fst ` set (m_columns m) = fst ` set (m_columns m0) \<union> set cols"
proof (induction cols arbitrary: m0 cu0 w0)
  case Nil
  then show ?case by simp
next
  case (Cons a cols)
  from Cons.prems obtain c2 cu1 w1 where
    "merge_columns e r ow mi cols (m0\<lparr>m_columns := dict_set (m_columns m0) a c2\<rparr>, cu1, w0 @ w1)
           = Inr (m, cu, w)"
    by (rule merge_columns_step)
  from Cons.IH [OF this] show ?case by (simp add: dict_set_keys)
qed

lemma merge_meta_keys:
  assumes mm: "merge_meta e l r fs ow = Inr (m, cols, cu, ws)"
  shows "fst ` set (m_columns m) = fst ` set (m_columns l) \<union> set cols"
proof -
  let ?fs = "case fs of None \<Rightarrow> ''data file'' | Some s \<Rightarrow> s"
  from mm obtain items where items: "map_of (m_sets r) ?fs = Some items"
    by (auto simp: merge_meta_def Let_def split: option.splits)
  from mm items obtain cols0 masks mi l1 m3 where
    masks: "merge_masks l r masks ow = Inr l1"
    and mc: "merge_columns e r ow mi cols (merge_lib_values (merge_sets l1 r) r, [], [])
               = Inr (m3, cu, ws)"
    and ap: "append_data_file_items m3 r ?fs = Inr m"
    by (auto simp: merge_meta_def Let_def bind_err_Inr split: option.splits)
  have "m_columns (merge_lib_values (merge_sets l1 r) r) = m_columns l"
    by (simp add: merge_lib_values_columns merge_sets_columns merge_masks_columns [OF masks])
  with merge_columns_keys [OF mc] append_data_file_items_columns [OF ap]
  show ?thesis by simp
qed

lemma filter_sub_one:
  assumes "keys_distinct (map f ys)"
  shows "length (filter (\<lambda>y. cell_equal (f y) k) (filter keep ys)) \<le> 1"
proof -
  have "length (filter (\<lambda>y. cell_equal (f y) k) (filter keep ys))
          \<le> length (filter (\<lambda>y. cell_equal (f y) k) ys)"
    by (induction ys) auto
  also have "\<dots> = length (filter (\<lambda>y. cell_equal y k) (map f ys))"
    by (induction ys) auto
  also have "\<dots> \<le> 1" using assms by (rule keys_distinct_matches)
  finally show ?thesis .
qed

lemma hmerge_right_shape:
  assumes hr: "hmerge_right e kl kr ow fs mex (ml, dl, w0) (mr, dr) = Inr (m, d, ws)"
    and wf: "length (index dl) = length (rows dl)"
    and dist: "distinct (columns dl)"
    and decl: "set (columns dl) \<subseteq> fst ` set (m_columns ml)"
    and fresh: "kl \<noteq> kr \<Longrightarrow> \<forall>c \<in> set (columns dl) \<union> set (columns dr). c \<noteq> kr @ ''_x'' \<and> c \<noteq> kr @ ''_y''"
  shows "\<exists>new. columns d = columns dl @ new \<and> distinct new
            \<and> set new \<inter> fst ` set (m_columns ml) = {} \<and> set new \<subseteq> set (columns dr)"
    and "kl \<in> set (columns d)" and "kr \<in> set (columns d)"
    and "distinct (columns d)"
    and "set (columns d) \<subseteq> fst ` set (m_columns m)"
    and "fst ` set (m_columns ml) \<subseteq> fst ` set (m_columns m)"
    and "length (index d) = length (rows d)"
    and "length (rows dl) \<le> length (rows d)"
    and "keys_distinct (map (\<lambda>y. cell_at (columns dr) y kr) (rows dr)) \<Longrightarrow>
           length (rows d) = length (rows dl)"
proof -
  let ?L = "fst ` set (m_columns ml)"
  from hr obtain m2 cols cu0 ws2 cu dl2 keep where
    kl: "kl \<in> set (columns dl)" and kr: "kr \<in> set (columns dr)"
    and mm: "merge_meta e ml mr fs ow = Inr (m2, cols, cu0, ws2)"
    and ku: "known_updates kl kr cu0 = Inr cu"
    and up: "if cu \<noteq> [] then update_known m2 dl (filter_rows dr keep) kl kr (kl \<noteq> kr \<and> kr \<in> set cu) cu mex
                           = Inr dl2
         else dl2 = dl"
    and an: "append_new dl2 (filter_rows dr keep) kl kr cols cu = Inr d"
    by (rule hmerge_right_parts)
  from hr mm ku have m: "m = m2"
    by (auto simp: hmerge_right_def Let_def bind_err_Inr split: if_splits)
  from merge_meta_cols [OF mm] have dc: "distinct cols"
    and cu0: "cu0 = filter (\<lambda>c. c \<in> ?L) cols" by simp_all
  from dc cu0 have dcu0: "distinct cu0" by simp
  from known_updates_Inr [OF ku] have cu: "if kl = kr then kl \<in> set cu0 \<and> cu = remove1 kl cu0 else cu = cu0" .
  have cuch: "(c \<in> set cu) = (c \<in> ?L \<and> \<not> (kl = kr \<and> c = kl))" if "c \<in> set cols" for c
  proof (cases "kl = kr")
    case True
    with cu have "cu = remove1 kl cu0" by simp
    with dcu0 have "set cu = set cu0 - {kl}" by simp
    with cu0 that True show ?thesis by auto
  next
    case False
    with cu cu0 that show ?thesis by auto
  qed
  have cusub: "set cu \<subseteq> set cols"
  proof (cases "kl = kr")
    case True
    with cu have "cu = remove1 kl cu0" by simp
    then have "set cu \<subseteq> set cu0" by (simp add: set_remove1_subset)
    with cu0 show ?thesis by auto
  next
    case False
    with cu cu0 show ?thesis by auto
  qed
  have c2: "columns dl2 = columns dl" and r2: "length (rows dl2) = length (rows dl)"
    and cudl: "cu \<noteq> [] \<Longrightarrow> set cu \<subseteq> set (columns dl)"
  proof -
    show "columns dl2 = columns dl"
    proof (cases "cu = []")
      case True with up show ?thesis by simp
    next
      case False
      with up have "update_known m2 dl (filter_rows dr keep) kl kr (kl \<noteq> kr \<and> kr \<in> set cu) cu mex = Inr dl2"
        by simp
      from update_known_shape(1) [OF this] show ?thesis .
    qed
    show "length (rows dl2) = length (rows dl)"
    proof (cases "cu = []")
      case True with up show ?thesis by simp
    next
      case False
      with up have "update_known m2 dl (filter_rows dr keep) kl kr (kl \<noteq> kr \<and> kr \<in> set cu) cu mex = Inr dl2"
        by simp
      from update_known_shape(2) [OF this] wf show ?thesis by simp
    qed
    assume "cu \<noteq> []"
    with up have "update_known m2 dl (filter_rows dr keep) kl kr (kl \<noteq> kr \<and> kr \<in> set cu) cu mex = Inr dl2"
      by simp
    from update_known_shape(3) [OF this] show "set cu \<subseteq> set (columns dl)"
      using set_remove1_subset [of kl "columns dl"] by blast
  qed
  let ?N = "filter (\<lambda>c. c \<notin> ?L) cols"
  have krl: "kr \<in> set (columns dl2)" if "kl \<noteq> kr \<and> kr \<in> set cu"
  proof -
    from that have "cu \<noteq> []" by auto
    from cudl [OF this] that show ?thesis by (auto simp: c2)
  qed
  have fr: "\<forall>c \<in> set (columns dl2) \<union> set (columns (filter_rows dr keep)).
              c \<noteq> kr @ ''_x'' \<and> c \<noteq> kr @ ''_y''" if "kl \<noteq> kr"
    using fresh [OF that] by (simp add: c2 filter_rows_simps)
  have decl2: "set (columns dl2) \<subseteq> ?L" using decl by (simp add: c2)
  have kl2: "kl \<in> set (columns dl2)" using kl by (simp add: c2)
  from append_new_columns [OF an cuch cusub decl2 kl2 krl fr]
  have cols: "columns d = columns dl2 @ ?N"
    and krin: "kr \<in> set (columns dl2) \<or> kr \<in> set ?N" by blast+
  from an obtain rp where
    sel: "select_columns (filter_rows dr keep)
       (filter (\<lambda>c. c \<notin> set cu) cols @ (if kl \<noteq> kr \<and> kr \<in> set cu then [kr] else [])) = Inr rp"
    by (rule append_new_Inr)
  from select_columns_Inr(3) [OF sel]
  have selsub: "set (filter (\<lambda>c. c \<notin> set cu) cols) \<subseteq> set (columns dr)"
    by (simp add: filter_rows_simps)
  have Nsub: "set ?N \<subseteq> set (columns dr)"
  proof
    fix c assume "c \<in> set ?N"
    then have "c \<in> set cols" "c \<notin> ?L" by simp_all
    with cuch [of c] have "c \<in> set (filter (\<lambda>c. c \<notin> set cu) cols)" by simp
    with selsub show "c \<in> set (columns dr)" by blast
  qed
  from cols c2 dc Nsub
  show "\<exists>new. columns d = columns dl @ new \<and> distinct new
            \<and> set new \<inter> fst ` set (m_columns ml) = {} \<and> set new \<subseteq> set (columns dr)"
    by (intro exI [of _ ?N]) auto
  from cols c2 kl show "kl \<in> set (columns d)" by simp
  from cols krin show "kr \<in> set (columns d)" by auto
  from cols c2 dist dc decl show "distinct (columns d)" by auto
  from merge_meta_keys [OF mm] cols c2 decl m
  show "set (columns d) \<subseteq> fst ` set (m_columns m)" by auto
  from merge_meta_keys [OF mm] m
  show "fst ` set (m_columns ml) \<subseteq> fst ` set (m_columns m)" by auto
  from append_new_index [OF an] show "length (index d) = length (rows d)" .
  from append_new_rows_ge [OF an] r2 show "length (rows dl) \<le> length (rows d)" by simp
  assume kd: "keys_distinct (map (\<lambda>y. cell_at (columns dr) y kr) (rows dr))"
  have "length (rows d) = length (rows dl2)"
  proof (rule append_new_rows_eq [OF an])
    fix k
    show "length (filter (\<lambda>y. cell_equal (cell_at (columns (filter_rows dr keep)) y kr) k)
                   (rows (filter_rows dr keep))) \<le> 1"
      unfolding filter_rows_simps using kd by (rule filter_sub_one)
  qed
  with r2 show "length (rows d) = length (rows dl)" by simp
qed

lemma hmerge_loop_shape:
  assumes "hmerge_loop e kl kr ow fs mex (ml, dl, w0) rights = Inr (m, d, ws)"
    and "length (index dl) = length (rows dl)"
    and "distinct (columns dl)"
    and "set (columns dl) \<subseteq> fst ` set (m_columns ml)"
    and "kl \<noteq> kr \<Longrightarrow> \<forall>c \<in> set (columns dl) \<union> (\<Union>ds \<in> set rights. set (columns (snd ds))).
                         c \<noteq> kr @ ''_x'' \<and> c \<noteq> kr @ ''_y''"
  shows "distinct (columns d)
     \<and> (rights \<noteq> [] \<longrightarrow> kl \<in> set (columns d) \<and> kr \<in> set (columns d))
     \<and> (\<exists>new. columns d = columns dl @ new \<and> set new \<inter> fst ` set (m_columns ml) = {}
               \<and> set new \<subseteq> (\<Union>ds \<in> set rights. set (columns (snd ds))))
     \<and> length (rows dl) \<le> length (rows d)
     \<and> ((\<forall>ds \<in> set rights. keys_distinct (map (\<lambda>y. cell_at (columns (snd ds)) y kr) (rows (snd ds))))
          \<longrightarrow> length (rows d) = length (rows dl))"
  using assms
proof (induction rights arbitrary: ml dl w0 fs)
  case Nil
  then show ?case by simp
next
  case (Cons ds rest)
  obtain mr dr where ds: "ds = (mr, dr)" by (cases ds)
  let ?fs2 = "Some (case fs of None \<Rightarrow> ''data file'' | Some s \<Rightarrow> s)"
  from Cons.prems(1) obtain left2 where
    h1: "hmerge_right e kl kr ow fs mex (ml, dl, w0) (mr, dr) = Inr left2"
    and h2: "hmerge_loop e kl kr ow ?fs2 mex left2 rest = Inr (m, d, ws)"
    unfolding ds hmerge_loop.simps bind_err_Inr by blast
  obtain m1 d1 w1 where l2: "left2 = (m1, d1, w1)" by (cases left2)
  note hr = h1 [unfolded l2]
  have fr1: "\<forall>c \<in> set (columns dl) \<union> set (columns dr). c \<noteq> kr @ ''_x'' \<and> c \<noteq> kr @ ''_y''"
    if "kl \<noteq> kr"
    using Cons.prems(5) [OF that] by (auto simp: ds)
  note sh = hmerge_right_shape [OF hr Cons.prems(2,3,4) fr1]
  from sh(1) obtain new1 where
    n1: "columns d1 = columns dl @ new1" "set new1 \<inter> fst ` set (m_columns ml) = {}"
        "set new1 \<subseteq> set (columns dr)" by blast
  have fr2: "\<forall>c \<in> set (columns d1) \<union> (\<Union>ds \<in> set rest. set (columns (snd ds))).
                c \<noteq> kr @ ''_x'' \<and> c \<noteq> kr @ ''_y''" if "kl \<noteq> kr"
  proof
    fix c assume "c \<in> set (columns d1) \<union> (\<Union>ds \<in> set rest. set (columns (snd ds)))"
    with n1(1,3) have "c \<in> set (columns dl) \<union> (\<Union>ds \<in> set (ds # rest). set (columns (snd ds)))"
      by (auto simp: ds)
    with Cons.prems(5) [OF that] show "c \<noteq> kr @ ''_x'' \<and> c \<noteq> kr @ ''_y''" by blast
  qed
  from Cons.IH [OF h2 [unfolded l2] sh(7) sh(4) sh(5) fr2]
  have ih: "distinct (columns d)"
    "\<exists>new. columns d = columns d1 @ new \<and> set new \<inter> fst ` set (m_columns m1) = {}
               \<and> set new \<subseteq> (\<Union>ds \<in> set rest. set (columns (snd ds)))"
    "length (rows d1) \<le> length (rows d)"
    "(\<forall>ds \<in> set rest. keys_distinct (map (\<lambda>y. cell_at (columns (snd ds)) y kr) (rows (snd ds))))
          \<longrightarrow> length (rows d) = length (rows d1)"
    by blast+
  from ih(2) obtain new2 where
    n2: "columns d = columns d1 @ new2" "set new2 \<inter> fst ` set (m_columns m1) = {}"
        "set new2 \<subseteq> (\<Union>ds \<in> set rest. set (columns (snd ds)))" by blast
  have a: "distinct (columns d)" by (rule ih(1))
  have b: "kl \<in> set (columns d) \<and> kr \<in> set (columns d)"
    using sh(2,3) n2(1) by simp
  have c: "\<exists>new. columns d = columns dl @ new \<and> set new \<inter> fst ` set (m_columns ml) = {}
               \<and> set new \<subseteq> (\<Union>ds \<in> set (ds # rest). set (columns (snd ds)))"
  proof (intro exI [of _ "new1 @ new2"] conjI)
    show "columns d = columns dl @ new1 @ new2" using n1(1) n2(1) by simp
    show "set (new1 @ new2) \<inter> fst ` set (m_columns ml) = {}"
      using n1(2) n2(2) sh(6) unfolding set_append by blast
    show "set (new1 @ new2) \<subseteq> (\<Union>ds \<in> set (ds # rest). set (columns (snd ds)))"
      using n1(3) n2(3) by (auto simp: ds)
  qed
  have d: "length (rows dl) \<le> length (rows d)" using sh(8) ih(3) by simp
  have e: "length (rows d) = length (rows dl)"
    if "\<forall>ds \<in> set (ds # rest). keys_distinct (map (\<lambda>y. cell_at (columns (snd ds)) y kr) (rows (snd ds)))"
  proof -
    from that have "keys_distinct (map (\<lambda>y. cell_at (columns dr) y kr) (rows dr))"
      by (simp add: ds)
    with sh(9) have "length (rows d1) = length (rows dl)" by simp
    moreover from that ih(4) have "length (rows d) = length (rows d1)" by simp
    ultimately show ?thesis by simp
  qed
  from a b c d e show ?case by blast
qed

text \<open>
  Claim C4 (amended).  Take a left dataset whose data columns are distinct and declared in
  its metadata (and, when the two keys have different names, no column of either side
  named as the right key with the suffix \<open>_x\<close> or \<open>_y\<close>).  Whenever \<open>hmerge\<close> returns, for
  one right dataset or a list of them, the columns of the merged data are distinct, so no
  join key stands twice; both keys are among them; the columns of the left data come first,
  as they were, followed by columns that the left metadata did not declare.  The merged
  data has at least as many rows as the left data, and exactly as many when no right
  dataset has two rows with the same key value: rows of the right data that share a key
  value multiply the left rows of that key.
\<close>

theorem hmerge_keys_and_rows:
  assumes "hmerge emulate_meta (meta_left, data_left) dataset_right on left_on right_on
             overwrite_text from_set merge_ex = Inr (m, d, ws)"
    and "on = Some kl \<and> kr = kl \<or> on = None \<and> left_on = Some kl \<and> right_on = Some kr"
    and "length (index data_left) = length (rows data_left)"
    and "distinct (columns data_left)"
    and "set (columns data_left) \<subseteq> fst ` set (m_columns meta_left)"
    and "kl \<noteq> kr \<longrightarrow>
           (\<forall>c \<in> set (columns data_left) \<union> (\<Union>ds \<in> set dataset_right. set (columns (snd ds))).
              c \<noteq> kr @ ''_x'' \<and> c \<noteq> kr @ ''_y'')"
  shows "distinct (columns d)
     \<and> (dataset_right \<noteq> [] \<longrightarrow> kl \<in> set (columns d) \<and> kr \<in> set (columns d))
     \<and> (\<exists>new. columns d = columns data_left @ new
               \<and> set new \<inter> fst ` set (m_columns meta_left) = {}
               \<and> set new \<subseteq> (\<Union>ds \<in> set dataset_right. set (columns (snd ds))))
     \<and> length (rows data_left) \<le> length (rows d)
     \<and> ((\<forall>ds \<in> set dataset_right.
            keys_distinct (map (\<lambda>y. cell_at (columns (snd ds)) y kr) (rows (snd ds))))
          \<longrightarrow> length (rows d) = length (rows data_left))"
proof -
  from assms(2) have keys: "(case on of Some k \<Rightarrow> k | None \<Rightarrow> the left_on) = kl"
      "(case on of Some k \<Rightarrow> k | None \<Rightarrow> the right_on) = kr"
    by auto
  from assms(1) have
    "hmerge_loop emulate_meta kl kr overwrite_text from_set merge_ex (meta_left, data_left, [])
       dataset_right = Inr (m, d, ws)"
    unfolding hmerge_def Let_def keys by (simp split: if_splits)
  from hmerge_loop_shape [OF this assms(3,4,5)] assms(6) show ?thesis by blast
qed

theorem hmerge_keys_and_rows_witness:
  "\<exists>m d ws.
     hmerge (\<lambda>m c. c)
       (meta_id, \<lparr>columns = [''id''], index = [0, 1], rows = [[IntV 1], [IntV 2]]\<rparr>)
       [(meta_ab, \<lparr>columns = [''a'', ''b''], index = [0, 1], rows = [[IntV 2, IntV 5], [IntV 3, IntV 6]]\<rparr>)]
       None (Some ''id'') (Some ''a'') False None MergeNone = Inr (m, d, ws)
     \<and> columns d = [''id'', ''a'', ''b'']
     \<and> rows d = [[IntV 1, NaN, NaN], [IntV 2, IntV 2, IntV 5]]
     \<and> distinct (columns d) \<and> length (rows d) = 2"
proof -
  let ?dl = "\<lparr>columns = [''id''], index = [0, 1], rows = [[IntV 1], [IntV 2]]\<rparr>"
  let ?dr = "\<lparr>columns = [''a'', ''b''], index = [0, 1], rows = [[IntV 2, IntV 5], [IntV 3, IntV 6]]\<rparr>"
  let ?d = "\<lparr>columns = [''id'', ''a'', ''b''], index = [0, 1],
             rows = [[IntV 1, NaN, NaN], [IntV 2, IntV 2, IntV 5]]\<rparr>"
  have "case hmerge (\<lambda>m c. c) (meta_id, ?dl) [(meta_ab, ?dr)]
            None (Some ''id'') (Some ''a'') False None MergeNone of
          Inl err \<Rightarrow> False | Inr (m, d, ws) \<Rightarrow> d = ?d \<and> ws = []"
    unfolding meta_id_def meta_ab_def plain_column_def by code_simp
  then obtain m where ev: "hmerge (\<lambda>m c. c) (meta_id, ?dl) [(meta_ab, ?dr)]
       None (Some ''id'') (Some ''a'') False None MergeNone = Inr (m, ?d, [])"
    by (auto split: sum.splits)
  have "distinct (columns ?d) \<and> length (rows ?d) = length (rows ?dl)"
    using hmerge_keys_and_rows [OF ev, of "''id''" "''a''"]
    by (simp add: meta_id_def)
  with ev show ?thesis by auto
qed

text \<open>
  Claim C4, the counterexample.  A left dataset with the single row of key 1 and a right
  dataset with two rows of key 1: the left join gives two rows, one more than the left
  dataset has.
\<close>

theorem hmerge_expands_rows_counterexample:
  "hmerge (\<lambda>m c. c)
     (meta_id, \<lparr>columns = [''id''], index = [0], rows = [[IntV 1]]\<rparr>)
     [(meta_id_x,
       \<lparr>columns = [''id'', ''x''], index = [0, 1], rows = [[IntV 1, IntV 5], [IntV 1, IntV 6]]\<rparr>)]
     (Some ''id'') None None False None MergeNone
   = Inr (meta_id_x\<lparr>m_columns :=
            [(''id'', plain_column ''id'' ''int''),
             (''x'', (plain_column ''x'' ''single'')\<lparr>col_properties := Some [(''merged'', ''True'')]\<rparr>)]\<rparr>,
          \<lparr>columns = [''id'', ''x''], index = [0, 1], rows = [[IntV 1, IntV 5], [IntV 1, IntV 6]]\<rparr>,
          [])"
  unfolding meta_id_def meta_id_x_def plain_column_def by code_simp

subsection \<open>Merging metadata without the named set\<close>

text \<open>
  Claim C8 (the code departs from it).  When the right metadata has no set named
  \<open>from_set\<close>, the column list is taken from \<open>list.sort\<close>, which sorts in place
  and returns \<open>None\<close>; the loop over the columns then fails with a \<open>TypeError\<close>.  So for
  every pair of metadata documents of which the right one has no sets, whatever its
  columns, the merge fails instead of merging the columns in alphanumeric order.
\<close>

theorem merge_meta_without_set_fails:
  "merge_meta emulate_meta meta_left (meta_right\<lparr>m_sets := []\<rparr>) from_set overwrite_text
     = Inl (TypeError (quote ''NoneType'' @ '' object is not iterable''))"
  by (simp add: merge_meta_def Let_def)

subsection \<open>Vertical merge on differently named keys\<close>

text \<open>
  Claim C9 (the code departs from it).  Both datasets have the columns \<open>a\<close> and \<open>b\<close>;
  the left key is \<open>a\<close>, the right key is \<open>b\<close>.  The only right row has the key value
  1, which is the key value of the only left row, so it should be dropped.  The code tests
  the right dataset's column \<open>a\<close> against the left dataset's column \<open>b\<close> instead, finds
  7 not among 5, and appends the row.
\<close>

theorem vmerge_keeps_right_row_with_known_key:
  "vmerge (\<lambda>m c. c)
     (meta_ab, \<lparr>columns = [''a'', ''b''], index = [0], rows = [[IntV 1, IntV 5]]\<rparr>)
     (meta_ab, \<lparr>columns = [''a'', ''b''], index = [0], rows = [[IntV 7, IntV 1]]\<rparr>)
     None (Some ''a'') (Some ''b'') False None True
   = Inr (meta_ab,
          \<lparr>columns = [''a'', ''b''], index = [0, 1], rows = [[IntV 1, IntV 5], [IntV 7, IntV 1]]\<rparr>,
          [])"
  unfolding meta_ab_def plain_column_def by code_simp

text \<open>The merged data has two rows: the right row is there.\<close>

theorem vmerge_keeps_right_row_with_known_key_witness:
  "\<exists>m d ws. vmerge (\<lambda>m c. c)
       (meta_ab, \<lparr>columns = [''a'', ''b''], index = [0], rows = [[IntV 1, IntV 5]]\<rparr>)
       (meta_ab, \<lparr>columns = [''a'', ''b''], index = [0], rows = [[IntV 7, IntV 1]]\<rparr>)
       None (Some ''a'') (Some ''b'') False None True = Inr (m, d, ws)
     \<and> length (rows d) = 2 \<and> [IntV 7, IntV 1] \<in> set (rows d)"
  unfolding vmerge_keeps_right_row_with_known_key by simp

end
